theory Spec2Isabelle
  imports Complex_Main "HOL-Library.Sublist"
begin

section \<open>The insight generator of the marketing deck platform\<close>

text \<open>
  A shallow embedding of \<^verbatim>\<open>python/insightGenerator.py\<close>. Every analyzer of the source
  is a HOL function of the same name over a model of the pandas data frame.

  Conventions of the embedding:
  \<^item> a Python or numpy float is a \<^typ>\<open>real\<close>; a null cell (\<^verbatim>\<open>NaN\<close>, \<^verbatim>\<open>None\<close>) and a
    \<^verbatim>\<open>NaN\<close> result are \<^term>\<open>None\<close>, so a comparison with it is false as in IEEE
    arithmetic. Infinite cell values and the rounding error of binary floating point
    are outside the model;
  \<^item> columns are handled as values, in the order of \<^verbatim>\<open>df.columns\<close>, where the source
    handles their labels: labels are taken to be unique;
  \<^item> what pandas, numpy and scikit-learn compute and the source only calls
    (date parsing and formatting, the Pearson matrix, scaling and k-means, the
    formatting of a float) is a field of the record \<open>libs\<close>; \<^term>\<open>None\<close> there is a
    raised exception;
  \<^item> a \<^verbatim>\<open>try: ... except Exception\<close> of the source is a case distinction on a result
    of type \<open>error + 'a\<close>.
\<close>

subsection \<open>Numbers\<close>

text \<open>Rounding to the nearest integer, ties to the even one, as \<^verbatim>\<open>round\<close> does.\<close>

definition round_half_even :: "real \<Rightarrow> int" where
  "round_half_even x =
     (let f = \<lfloor>x\<rfloor>; d = x - of_int f
      in if d < 1 / 2 then f else if d > 1 / 2 then f + 1
         else if even f then f else f + 1)"

text \<open>\<^verbatim>\<open>round(x, n)\<close>.\<close>

definition py_round :: "real \<Rightarrow> nat \<Rightarrow> real" where
  "py_round x n = of_int (round_half_even (x * 10 ^ n)) / 10 ^ n"

text \<open>
  Where a float can be \<^verbatim>\<open>nan\<close> or infinite, it is a \<open>real option\<close> and \<^term>\<open>None\<close>
  is the non-finite value. \<^verbatim>\<open>a / b\<close> with a numpy scalar \<^verbatim>\<open>a\<close> and a zero divisor gives
  \<^verbatim>\<open>nan\<close> or \<^verbatim>\<open>inf\<close> and a warning (which the module silences), not an exception.
\<close>

type_synonym pyfloat = "real option"

definition np_true_divide :: "real \<Rightarrow> real \<Rightarrow> pyfloat" where
  "np_true_divide a b = (if b = 0 then None else Some (a / b))"

definition float_mul :: "pyfloat \<Rightarrow> real \<Rightarrow> pyfloat" where
  "float_mul x k = map_option (\<lambda>v. v * k) x"

definition float_add :: "pyfloat \<Rightarrow> real \<Rightarrow> pyfloat" where
  "float_add x k = map_option (\<lambda>v. v + k) x"

definition float_sub :: "pyfloat \<Rightarrow> pyfloat \<Rightarrow> pyfloat" where
  "float_sub x y = (case (x, y) of (Some a, Some b) \<Rightarrow> Some (a - b) | _ \<Rightarrow> None)"

text \<open>
  \<^verbatim>\<open>min(a, x)\<close> of Python returns \<^verbatim>\<open>x\<close> only when \<^verbatim>\<open>x < a\<close> holds, which is false for
  \<^verbatim>\<open>nan\<close> and \<^verbatim>\<open>inf\<close>.
\<close>

definition py_min :: "pyfloat \<Rightarrow> pyfloat \<Rightarrow> pyfloat" where
  "py_min a x = (case (a, x) of (Some a', Some x') \<Rightarrow> if x' < a' then x else a | _ \<Rightarrow> a)"

datatype error = ValueError | DateParseError

text \<open>\<^verbatim>\<open>int(x)\<close> truncates a finite float towards zero and raises on \<^verbatim>\<open>nan\<close> and \<^verbatim>\<open>inf\<close>.\<close>

definition py_int :: "pyfloat \<Rightarrow> error + int" where
  "py_int x = (case x of None \<Rightarrow> Inl ValueError
               | Some v \<Rightarrow> Inr (if 0 \<le> v then \<lfloor>v\<rfloor> else \<lceil>v\<rceil>))"

subsection \<open>The data frame\<close>

text \<open>
  A column is numeric (\<^verbatim>\<open>np.number\<close>), of dtype \<^verbatim>\<open>object\<close> (strings), or of another
  dtype (bool, datetime64, category), of which only the null cells are observed.
\<close>

datatype coldata =
    Numeric "real option list"
  | Object "string option list"
  | Other "bool list"

record column =
  name :: string
  data :: coldata

text \<open>\<^verbatim>\<open>len(df)\<close> is the length of the index, \<^verbatim>\<open>df.columns\<close> the columns in order.\<close>

record dataframe =
  nrows :: nat
  columns :: "column list"

fun is_numeric :: "column \<Rightarrow> bool" where
  "is_numeric c = (case data c of Numeric _ \<Rightarrow> True | _ \<Rightarrow> False)"

fun is_object :: "column \<Rightarrow> bool" where
  "is_object c = (case data c of Object _ \<Rightarrow> True | _ \<Rightarrow> False)"

fun num_cells :: "column \<Rightarrow> real option list" where
  "num_cells c = (case data c of Numeric xs \<Rightarrow> xs | _ \<Rightarrow> [])"

fun obj_cells :: "column \<Rightarrow> string option list" where
  "obj_cells c = (case data c of Object xs \<Rightarrow> xs | _ \<Rightarrow> [])"

text \<open>\<^verbatim>\<open>df[col].isnull().sum()\<close>; for another dtype the list marks the null cells.\<close>

fun null_count :: "column \<Rightarrow> nat" where
  "null_count c =
     (case data c of
        Numeric xs \<Rightarrow> length (filter (\<lambda>v. v = None) xs)
      | Object xs \<Rightarrow> length (filter (\<lambda>v. v = None) xs)
      | Other bs \<Rightarrow> length (filter (\<lambda>b. b) bs))"

text \<open>\<^verbatim>\<open>df.select_dtypes(include=[np.number]).columns.tolist()\<close>\<close>

definition numeric_cols :: "dataframe \<Rightarrow> column list" where
  "numeric_cols df = filter is_numeric (columns df)"

text \<open>\<^verbatim>\<open>df.select_dtypes(include=['object']).columns.tolist()\<close>\<close>

definition categorical_cols :: "dataframe \<Rightarrow> column list" where
  "categorical_cols df = filter is_object (columns df)"

text \<open>\<^verbatim>\<open>df.isnull().sum().sum()\<close>\<close>

definition missing_values_total :: "dataframe \<Rightarrow> nat" where
  "missing_values_total df = sum_list (map null_count (columns df))"

text \<open>\<^verbatim>\<open>series.dropna()\<close>\<close>

definition dropna :: "'a option list \<Rightarrow> 'a list" where
  "dropna xs = map the (filter (\<lambda>v. v \<noteq> None) xs)"

subsection \<open>Library functions\<close>

text \<open>
  The functions of pandas and scikit-learn that the analyzers call:
  \<^item> \<open>HAS_SCIPY\<close>: the module flag set by the guarded import;
  \<^item> \<open>to_datetime\<close>: \<^verbatim>\<open>pd.to_datetime\<close> on a column of strings, \<^term>\<open>None\<close> when it raises,
    a cell \<^term>\<open>None\<close> for \<^verbatim>\<open>NaT\<close>; a date is its position on the time line;
  \<^item> \<open>strftime_ym\<close>: \<^verbatim>\<open>timestamp.strftime('%Y-%m')\<close>;
  \<^item> \<open>corr\<close>: \<^verbatim>\<open>df[numeric_cols].corr()\<close>, the Pearson matrix of the given columns,
    indexed by position, an entry \<^term>\<open>None\<close> when it is \<^verbatim>\<open>nan\<close>;
  \<^item> \<open>fit_transform\<close>: \<^verbatim>\<open>StandardScaler().fit_transform\<close> on the rows;
  \<^item> \<open>fit_predict\<close>: \<^verbatim>\<open>KMeans(n_clusters, random_state, n_init).fit_predict\<close>, the label
    of each row;
  \<^item> \<open>str_float\<close>: the text of a float in an f-string; \<open>format_2f\<close>: with \<^verbatim>\<open>:.2f\<close>;
  \<^item> \<open>HAS_PROFILING\<close>, \<open>sys_version\<close>, \<open>pd_version\<close>: the other module flag and the
    versions of Python and pandas, reported in the metadata.
\<close>

record libs =
  HAS_SCIPY :: bool
  to_datetime :: "string option list \<Rightarrow> int option list option"
  strftime_ym :: "int \<Rightarrow> string"
  corr :: "real option list list \<Rightarrow> (nat \<Rightarrow> nat \<Rightarrow> real option) option"
  fit_transform :: "real list list \<Rightarrow> real list list option"
  fit_predict :: "nat \<Rightarrow> nat \<Rightarrow> nat \<Rightarrow> real list list \<Rightarrow> nat list option"
  str_float :: "real \<Rightarrow> string"
  format_2f :: "real \<Rightarrow> string"
  HAS_PROFILING :: bool
  sys_version :: string
  pd_version :: string

subsection \<open>detect_trends\<close>

record trend =
  metric :: string
  timeframe :: string
  direction :: string
  overall_change_pct :: real
  latest_period_change_pct :: real
  confidence :: int

text \<open>
  The columns of dtype \<^verbatim>\<open>object\<close> whose first five cells (\<^verbatim>\<open>head()\<close>) parse as dates.
\<close>

definition date_cols :: "libs \<Rightarrow> dataframe \<Rightarrow> column list" where
  "date_cols L df =
     filter (\<lambda>c. is_object c \<and> to_datetime L (take 5 (obj_cells c)) \<noteq> None) (columns df)"

text \<open>
  \<^verbatim>\<open>temp_df.sort_values(date_col)\<close>: ascending by date, \<^verbatim>\<open>NaT\<close> rows last. Rows of equal
  date keep their order here (pandas promises no order among them).
\<close>

definition sort_values :: "(int option \<times> 'a) list \<Rightarrow> (int option \<times> 'a) list" where
  "sort_values rows =
     sort_key (\<lambda>r. the (fst r)) (filter (\<lambda>r. fst r \<noteq> None) rows) @
     filter (\<lambda>r. fst r = None) rows"

text \<open>\<^verbatim>\<open>temp_df.dropna()\<close> on the two-column frame.\<close>

definition dropna_rows :: "(int option \<times> real option) list \<Rightarrow> (int \<times> real) list" where
  "dropna_rows rows =
     map (\<lambda>r. (the (fst r), the (snd r))) (filter (\<lambda>r. fst r \<noteq> None \<and> snd r \<noteq> None) rows)"

text \<open>
  The rows of a (date column, metric column) pair that the trend is computed from;
  the parsed dates are one for each cell of the date column.
\<close>

definition usable_rows :: "int option list \<Rightarrow> column \<Rightarrow> (int \<times> real) list" where
  "usable_rows dates metric_col = dropna_rows (sort_values (zip dates (num_cells metric_col)))"

fun list_min :: "int list \<Rightarrow> int" where
  "list_min [] = 0"
| "list_min (x # xs) = fold min xs x"

fun list_max :: "int list \<Rightarrow> int" where
  "list_max [] = 0"
| "list_max (x # xs) = fold max xs x"

text \<open>
  The body of the \<^verbatim>\<open>try\<close> for one pair: \<open>Inl\<close> when the dates of the whole column do
  not parse, \<open>Inr None\<close> when fewer than three rows remain.
\<close>

definition trend_of_pair :: "libs \<Rightarrow> column \<Rightarrow> column \<Rightarrow> error + trend option" where
  "trend_of_pair L date_col metric_col =
     (case to_datetime L (obj_cells date_col) of
        None \<Rightarrow> Inl DateParseError
      | Some dates \<Rightarrow>
          let temp_df = usable_rows dates metric_col
          in if length temp_df \<ge> 3 then
               let values = map snd temp_df; n = length values
               in if n \<ge> 2 then
                    let latest_growth =
                          (if values ! (n - 2) \<noteq> 0
                           then (values ! (n - 1) - values ! (n - 2)) / \<bar>values ! (n - 2)\<bar> * 100
                           else 0);
                        overall_growth =
                          (if values ! 0 \<noteq> 0
                           then (values ! (n - 1) - values ! 0) / \<bar>values ! 0\<bar> * 100
                           else 0);
                        trend_direction =
                          (if overall_growth > 5 then ''growth''
                           else if overall_growth < - 5 then ''decline'' else ''stable'')
                    in Inr (Some \<lparr>
                         metric = name metric_col,
                         timeframe = strftime_ym L (list_min (map fst temp_df)) @ '' to '' @
                                     strftime_ym L (list_max (map fst temp_df)),
                         direction = trend_direction,
                         overall_change_pct = py_round overall_growth 1,
                         latest_period_change_pct = py_round latest_growth 1,
                         confidence = min 100 (max 50 (100 - \<bar>100 - int n * 10\<bar>))\<rparr>)
                  else Inr None
             else Inr None)"

text \<open>What one pair appends to \<^verbatim>\<open>trends\<close>: the \<^verbatim>\<open>except\<close> branch only prints a warning.\<close>

definition trends_of_pair :: "libs \<Rightarrow> column \<Rightarrow> column \<Rightarrow> trend list" where
  "trends_of_pair L date_col metric_col =
     (case trend_of_pair L date_col metric_col of
        Inl e \<Rightarrow> []
      | Inr None \<Rightarrow> []
      | Inr (Some t) \<Rightarrow> [t])"

definition detect_trends :: "libs \<Rightarrow> dataframe \<Rightarrow> trend list" where
  "detect_trends L df =
     (if date_cols L df \<noteq> [] \<and> numeric_cols df \<noteq> [] then
        concat (map (\<lambda>date_col.
          concat (map (\<lambda>metric_col. trends_of_pair L date_col metric_col)
            (take 3 (numeric_cols df))))
          (take 1 (date_cols L df)))
      else [])"

subsection \<open>detect_outliers\<close>

record outlier_group =
  outlier_column :: string
  outlier_count :: nat
  outlier_percentage :: real
  highest :: real
  lowest :: real
  upper_bound :: real
  lower_bound :: real

text \<open>
  \<^verbatim>\<open>series.quantile(q)\<close>: linear interpolation between the two nearest of the sorted
  non-null values; \<^verbatim>\<open>nan\<close> when there is none.
\<close>

definition quantile :: "real option list \<Rightarrow> real \<Rightarrow> pyfloat" where
  "quantile cells q =
     (let xs = sort (dropna cells); n = length xs
      in if n = 0 then None
         else let pos = real (n - 1) * q; lo = nat \<lfloor>pos\<rfloor>; hi = min (lo + 1) (n - 1)
              in Some (xs ! lo + (xs ! hi - xs ! lo) * (pos - real lo)))"

fun real_list_min :: "real list \<Rightarrow> real" where
  "real_list_min [] = 0"
| "real_list_min (x # xs) = fold min xs x"

fun real_list_max :: "real list \<Rightarrow> real" where
  "real_list_max [] = 0"
| "real_list_max (x # xs) = fold max xs x"

text \<open>
  The body of the loop for one column. With a \<^verbatim>\<open>nan\<close> quantile both bounds are \<^verbatim>\<open>nan\<close>,
  every comparison is false and no value is an outlier; a null cell is never one.
\<close>

definition outliers_of_col :: "dataframe \<Rightarrow> column \<Rightarrow> outlier_group list" where
  "outliers_of_col df col =
     (case (quantile (num_cells col) (25 / 100), quantile (num_cells col) (75 / 100)) of
        (Some Q1, Some Q3) \<Rightarrow>
          let IQR = Q3 - Q1;
              lower_bound' = Q1 - 15 / 10 * IQR;
              upper_bound' = Q3 + 15 / 10 * IQR;
              outlier_values =
                filter (\<lambda>v. v < lower_bound' \<or> v > upper_bound') (dropna (num_cells col))
          in if length outlier_values > 0 then
               [\<lparr>outlier_column = name col,
                 outlier_count = length outlier_values,
                 outlier_percentage =
                   py_round (real (length outlier_values) / real (nrows df) * 100) 1,
                 highest = real_list_max outlier_values,
                 lowest = real_list_min outlier_values,
                 upper_bound = upper_bound',
                 lower_bound = lower_bound'\<rparr>]
             else []
      | _ \<Rightarrow> [])"

definition detect_outliers :: "dataframe \<Rightarrow> outlier_group list" where
  "detect_outliers df = concat (map (outliers_of_col df) (take 5 (numeric_cols df)))"

subsection \<open>analyze_correlations\<close>

record correlation_rec =
  variable_x :: string
  variable_y :: string
  correlation :: real
  strength :: string
  corr_direction :: string
  business_insight :: string

definition generate_correlation_insight :: "libs \<Rightarrow> string \<Rightarrow> string \<Rightarrow> real \<Rightarrow> string" where
  "generate_correlation_insight L col1 col2 corr_value =
     (let direction' = (if corr_value > 0 then ''increases'' else ''decreases'');
          strength' = (if \<bar>corr_value\<bar> \<ge> 7 / 10 then ''strongly'' else ''moderately'')
      in ''As '' @ col1 @ '' increases, '' @ col2 @ '' '' @ strength' @ '' '' @ direction' @
         '' (r='' @ format_2f L corr_value @ '')'')"

text \<open>What the pair \<open>(i, j)\<close> of the double loop appends.\<close>

definition correlation_of_pair ::
  "libs \<Rightarrow> column list \<Rightarrow> (nat \<Rightarrow> nat \<Rightarrow> real option) \<Rightarrow> nat \<Rightarrow> nat \<Rightarrow> correlation_rec list" where
  "correlation_of_pair L cols corr_matrix i j =
     (let col1 = name (cols ! i); col2 = name (cols ! j)
      in case corr_matrix i j of
           None \<Rightarrow> []
         | Some corr_value \<Rightarrow>
             if \<bar>corr_value\<bar> \<ge> 5 / 10 then
               [\<lparr>variable_x = col1,
                 variable_y = col2,
                 correlation = py_round corr_value 3,
                 strength = (if \<bar>corr_value\<bar> \<ge> 7 / 10 then ''strong'' else ''moderate''),
                 corr_direction = (if corr_value > 0 then ''positive'' else ''negative''),
                 business_insight = generate_correlation_insight L col1 col2 corr_value\<rparr>]
             else [])"

text \<open>
  \<^verbatim>\<open>list.sort(key=..., reverse=True)\<close> is stable: descending by key, equal keys in their
  old order.
\<close>

definition sort_by_abs_correlation :: "correlation_rec list \<Rightarrow> correlation_rec list" where
  "sort_by_abs_correlation cs = sort_key (\<lambda>c. - \<bar>correlation c\<bar>) cs"

definition analyze_correlations :: "libs \<Rightarrow> dataframe \<Rightarrow> correlation_rec list" where
  "analyze_correlations L df =
     (let cols = numeric_cols df; n = length cols;
          correlations =
            (if n \<ge> 2 then
               (case corr L (map num_cells cols) of
                  None \<Rightarrow> []
                | Some corr_matrix \<Rightarrow>
                    sort_by_abs_correlation
                      (concat (map (\<lambda>i.
                         concat (map (\<lambda>j. correlation_of_pair L cols corr_matrix i j)
                           [i + 1 ..< n]))
                         [0 ..< n])))
             else [])
      in take 5 correlations)"

subsection \<open>analyze_segments\<close>

record category =
  cat_name :: string
  cat_count :: nat
  percentage :: real

record cluster =
  cluster_id :: nat
  cluster_size :: nat
  cluster_percentage :: real
  characteristics :: "(string \<times> real \<times> real) list"

text \<open>
  A segment is a dictionary whose key \<^verbatim>\<open>"type"\<close> is \<^verbatim>\<open>"categorical"\<close> (with the keys
  \<^verbatim>\<open>segment_by\<close> and \<^verbatim>\<open>segments\<close>) or \<^verbatim>\<open>"numeric_clusters"\<close> (with \<^verbatim>\<open>cluster_method\<close>,
  \<^verbatim>\<open>features_used\<close> and \<^verbatim>\<open>clusters\<close>).
\<close>

datatype segment =
    Categorical string "category list"
  | Numeric_clusters string "string list" "cluster list"

fun segment_type :: "segment \<Rightarrow> string" where
  "segment_type (Categorical _ _) = ''categorical''"
| "segment_type (Numeric_clusters _ _ _) = ''numeric_clusters''"

text \<open>
  \<^verbatim>\<open>series.value_counts()\<close>: the distinct non-null values with their number of
  occurrences, the most frequent first; values of equal frequency stay in the order
  of their first occurrence.
\<close>

definition value_counts :: "string option list \<Rightarrow> (string \<times> nat) list" where
  "value_counts cells =
     (let vs = dropna cells
      in sort_key (\<lambda>p. - int (snd p))
           (map (\<lambda>v. (v, count_list vs v)) (rev (remdups (rev vs)))))"

text \<open>What one categorical column appends to \<^verbatim>\<open>segments\<close>.\<close>

definition categorical_segment :: "dataframe \<Rightarrow> column \<Rightarrow> segment list" where
  "categorical_segment df col =
     (let value_counts' = value_counts (obj_cells col)
      in if 2 \<le> length value_counts' \<and> length value_counts' \<le> 10 then
           [Categorical (name col)
              (map (\<lambda>p. \<lparr>cat_name = fst p,
                          cat_count = snd p,
                          percentage = py_round (real (snd p) / real (nrows df) * 100) 1\<rparr>)
                 (take 5 value_counts'))]
         else [])"

definition mean :: "real list \<Rightarrow> real" where
  "mean xs = sum_list xs / real (length xs)"

definition median :: "real list \<Rightarrow> real" where
  "median xs =
     (let s = sort xs; n = length s
      in if odd n then s ! (n div 2) else (s ! (n div 2 - 1) + s ! (n div 2)) / 2)"

text \<open>
  \<^verbatim>\<open>df[numeric_cols[:3]].dropna()\<close>: the rows, as lists of cells, none of which is
  null. Every column has \<open>nrows df\<close> cells.
\<close>

definition cluster_data :: "dataframe \<Rightarrow> column list \<Rightarrow> real list list" where
  "cluster_data df cols =
     map (map the)
       (filter (list_all (\<lambda>v. v \<noteq> None))
          (map (\<lambda>i. map (\<lambda>c. num_cells c ! i) cols) [0 ..< nrows df]))"

text \<open>The summary of one cluster, when it has a row.\<close>

definition cluster_summary_of ::
  "column list \<Rightarrow> real list list \<Rightarrow> nat list \<Rightarrow> nat \<Rightarrow> cluster list" where
  "cluster_summary_of cols rows cluster_labels cid =
     (let cluster_subset = map fst (filter (\<lambda>p. snd p = cid) (zip rows cluster_labels))
      in if length cluster_subset > 0 then
           [\<lparr>cluster_id = cid,
             cluster_size = length cluster_subset,
             cluster_percentage =
               py_round (real (length cluster_subset) / real (length rows) * 100) 1,
             characteristics =
               map (\<lambda>k. (name (cols ! k),
                          py_round (mean (map (\<lambda>r. r ! k) cluster_subset)) 2,
                          py_round (median (map (\<lambda>r. r ! k) cluster_subset)) 2))
                 [0 ..< min 2 (length cols)]\<rparr>]
         else [])"

text \<open>
  The body of the \<^verbatim>\<open>try\<close> around the clustering: \<open>Inl\<close> when scaling or k-means
  raises, \<open>Inr []\<close> when fewer than ten rows are complete.
\<close>

definition numeric_clustering :: "libs \<Rightarrow> dataframe \<Rightarrow> error + segment list" where
  "numeric_clustering L df =
     (let cols = take 3 (numeric_cols df); rows = cluster_data df cols
      in if length rows \<ge> 10 then
           (case fit_transform L rows of
              None \<Rightarrow> Inl ValueError
            | Some scaled_data \<Rightarrow>
                (let optimal_k = 3
                 in (case fit_predict L optimal_k 42 10 scaled_data of
                       None \<Rightarrow> Inl ValueError
                     | Some cluster_labels \<Rightarrow>
                         Inr [Numeric_clusters ''kmeans'' (take 3 (map name cols))
                                (concat (map (cluster_summary_of cols rows cluster_labels)
                                   [0 ..< optimal_k]))])))
         else Inr [])"

definition analyze_segments :: "libs \<Rightarrow> dataframe \<Rightarrow> segment list" where
  "analyze_segments L df =
     (if \<not> HAS_SCIPY L then []
      else
        concat (map (categorical_segment df) (take 3 (categorical_cols df))) @
        (if length (numeric_cols df) \<ge> 2 \<and> nrows df \<ge> 10 then
           (case numeric_clustering L df of Inl e \<Rightarrow> [] | Inr segs \<Rightarrow> segs)
         else []))"

subsection \<open>calculate_data_quality_score\<close>

text \<open>
  The score is an \<^verbatim>\<open>int\<close> until a float is subtracted from it. The number of null
  cells is a numpy scalar (the result of \<^verbatim>\<open>Series.sum\<close>), so its division by a zero
  number of cells is \<open>np_true_divide\<close>. Of the operations of the function only
  \<^verbatim>\<open>int(score)\<close> can raise, on a non-finite score.
\<close>

definition calculate_data_quality_score :: "dataframe \<Rightarrow> error + int" where
  "calculate_data_quality_score df =
     (let score = Some 100;
          missing_pct = float_mul
            (np_true_divide (real (missing_values_total df))
               (real (nrows df * length (columns df)))) 100;
          score = float_sub score (py_min (Some 40) (float_mul missing_pct 2));
          score = (if nrows df \<ge> 100 then float_add score 5
                   else if nrows df < 10 then float_add score (- 20) else score);
          numeric_cols' = length (numeric_cols df);
          categorical_cols' = length (categorical_cols df);
          score = (if numeric_cols' \<ge> 2 \<and> categorical_cols' \<ge> 1
                   then float_add score 10 else score);
          score = (if length (columns df) > 20 then float_add score (- 10) else score)
      in case py_int score of
           Inl e \<Rightarrow> Inl e
         | Inr n \<Rightarrow> Inr (max 0 (min 100 n)))"

subsection \<open>analyze_dataframe\<close>

record insight =
  insight_type :: string
  title :: string
  description :: string
  business_impact :: string
  slide_recommendation :: string

text \<open>
  \<^verbatim>\<open>max(xs, key=f)\<close> returns the first of the greatest elements, and raises on an
  empty list. Both calls below stand behind a test that the list is not empty, so
  their error branch is never taken (lemma \<open>py_max_key_greatest\<close>); it yields no
  insight.
\<close>

fun py_max_key :: "('a \<Rightarrow> real) \<Rightarrow> 'a list \<Rightarrow> error + 'a" where
  "py_max_key f [] = Inl ValueError"
| "py_max_key f (x # xs) = Inr (fold (\<lambda>y best. if f y > f best then y else best) xs x)"

text \<open>The block under \<^verbatim>\<open># Add trend insights\<close>.\<close>

definition trend_insights :: "libs \<Rightarrow> trend list \<Rightarrow> insight list" where
  "trend_insights L trends =
     (if trends \<noteq> [] then
        let growth_trends =
              filter (\<lambda>t. direction t = ''growth'' \<and> overall_change_pct t > 10) trends
        in if growth_trends \<noteq> [] then
             (case py_max_key overall_change_pct growth_trends of
                Inl e \<Rightarrow> []
              | Inr best_growth \<Rightarrow>
                  [\<lparr>insight_type = ''growth_opportunity'',
                    title = metric best_growth @ '' Shows Strong Growth'',
                    description = metric best_growth @ '' increased '' @
                      str_float L (overall_change_pct best_growth) @ ''% over '' @
                      timeframe best_growth,
                    business_impact = ''high'',
                    slide_recommendation = ''metrics_performance''\<rparr>])
           else []
      else [])"

text \<open>The block under \<^verbatim>\<open># Add correlation insights\<close>.\<close>

definition correlation_insights :: "correlation_rec list \<Rightarrow> insight list" where
  "correlation_insights correlations =
     (if correlations \<noteq> [] then
        (case filter (\<lambda>c. strength c = ''strong'') correlations of
           [] \<Rightarrow> []
         | c0 # _ \<Rightarrow>
             [\<lparr>insight_type = ''relationship_discovery'',
               title = ''Strong Relationship: '' @ variable_x c0 @ '' & '' @ variable_y c0,
               description = business_insight c0,
               business_impact = ''medium'',
               slide_recommendation = ''correlation_analysis''\<rparr>])
      else [])"

text \<open>
  The loop under \<^verbatim>\<open># Add segment insights\<close>. Its \<^verbatim>\<open>break\<close> is the last statement of the
  outer \<^verbatim>\<open>if\<close>: the loop ends at the first categorical segment with two categories
  or more, whether or not an insight was appended for it.
\<close>

fun segment_insights :: "libs \<Rightarrow> segment list \<Rightarrow> insight list" where
  "segment_insights L [] = []"
| "segment_insights L (Numeric_clusters m fs cs # rest) = segment_insights L rest"
| "segment_insights L (Categorical by cats # rest) =
     (if length cats \<ge> 2 then
        (case py_max_key percentage cats of
           Inl e \<Rightarrow> []
         | Inr largest_segment \<Rightarrow>
             if percentage largest_segment \<ge> 40 then
               [\<lparr>insight_type = ''market_segmentation'',
                 title = by @ '' Distribution Analysis'',
                 description = cat_name largest_segment @ '' represents '' @
                   str_float L (percentage largest_segment) @ ''% of the data'',
                 business_impact = ''medium'',
                 slide_recommendation = ''segment_breakdown''\<rparr>]
             else [])
      else segment_insights L rest)"

definition key_insights_of ::
  "libs \<Rightarrow> trend list \<Rightarrow> correlation_rec list \<Rightarrow> segment list \<Rightarrow> insight list" where
  "key_insights_of L trends correlations segments =
     trend_insights L trends @ correlation_insights correlations @
     segment_insights L segments"

definition determine_narrative_arc ::
  "trend list \<Rightarrow> correlation_rec list \<Rightarrow> segment list \<Rightarrow> string" where
  "determine_narrative_arc trends correlations segments =
     (if trends \<noteq> [] \<and> list_ex (\<lambda>t. direction t = ''growth'') trends then ''growth_story''
      else if correlations \<noteq> [] \<and> length correlations \<ge> 2 then ''relationship_analysis''
      else if segments \<noteq> [] \<and> length segments \<ge> 1 then ''segmentation_insights''
      else ''data_summary'')"

definition recommend_chart_types ::
  "dataframe \<Rightarrow> trend list \<Rightarrow> correlation_rec list \<Rightarrow> segment list \<Rightarrow> string list" where
  "recommend_chart_types df trends correlations segments =
     (let chart_recommendations = [];
          chart_recommendations =
            (if trends \<noteq> [] then chart_recommendations @ [''line'']
             else chart_recommendations);
          chart_recommendations =
            (if correlations \<noteq> [] then chart_recommendations @ [''scatter'']
             else chart_recommendations);
          chart_recommendations =
            (if segments \<noteq> [] then
               let categorical_segments =
                     filter (\<lambda>s. segment_type s = ''categorical'') segments
               in if categorical_segments \<noteq> []
                  then chart_recommendations @ [''bar'', ''donut'']
                  else chart_recommendations
             else chart_recommendations);
          chart_recommendations = chart_recommendations @ [''metrics_cards''];
          chart_recommendations =
            (if chart_recommendations = [] then [''bar'', ''line'']
             else chart_recommendations)
      in take 4 chart_recommendations)"

record basic_statistics =
  row_count :: nat
  column_count :: nat
  numeric_columns :: nat
  categorical_columns :: nat
  missing_values :: nat
  missing_percentage :: pyfloat

record slide_recommendations =
  total_slides_suggested :: int
  narrative_arc :: string
  chart_types_recommended :: "string list"

record metadata =
  analysis_timestamp :: string
  python_version :: string
  pandas_version :: string
  has_profiling :: bool
  has_scipy :: bool

record report =
  basic_stats :: basic_statistics
  data_quality_score :: int
  trends :: "trend list"
  outliers :: "outlier_group list"
  correlations :: "correlation_rec list"
  segments :: "segment list"
  key_insights :: "insight list"
  slide_recs :: slide_recommendations
  meta :: metadata

text \<open>
  \<open>now\<close> is the text of \<^verbatim>\<open>pd.Timestamp.now().isoformat()\<close> at the time of the call, the
  only reading of the clock. \<^verbatim>\<open>round(missing, 2)\<close> of a \<^verbatim>\<open>nan\<close> is \<^verbatim>\<open>nan\<close>.
\<close>

definition analyze_dataframe :: "libs \<Rightarrow> string \<Rightarrow> dataframe \<Rightarrow> error + report" where
  "analyze_dataframe L now df =
     (let basic_stats' = \<lparr>
            row_count = nrows df,
            column_count = length (columns df),
            numeric_columns = length (numeric_cols df),
            categorical_columns = length (categorical_cols df),
            missing_values = missing_values_total df,
            missing_percentage = map_option (\<lambda>p. py_round p 2)
              (float_mul (np_true_divide (real (missing_values_total df))
                 (real (nrows df * length (columns df)))) 100)\<rparr>;
          trends' = detect_trends L df;
          outliers' = detect_outliers df;
          correlations' = analyze_correlations L df;
          segments' = analyze_segments L df
      in case calculate_data_quality_score df of
           Inl e \<Rightarrow> Inl e
         | Inr quality_score \<Rightarrow>
             let key_insights' = key_insights_of L trends' correlations' segments'
             in Inr \<lparr>
                  basic_stats = basic_stats',
                  data_quality_score = quality_score,
                  trends = trends',
                  outliers = outliers',
                  correlations = correlations',
                  segments = segments',
                  key_insights = key_insights',
                  slide_recs = \<lparr>
                    total_slides_suggested = min 8 (max 4 (int (length key_insights') + 2)),
                    narrative_arc = determine_narrative_arc trends' correlations' segments',
                    chart_types_recommended =
                      recommend_chart_types df trends' correlations' segments'\<rparr>,
                  meta = \<lparr>
                    analysis_timestamp = now,
                    python_version = sys_version L,
                    pandas_version = pd_version L,
                    has_profiling = HAS_PROFILING L,
                    has_scipy = HAS_SCIPY L\<rparr>\<rparr>)"

subsection \<open>Auxiliary notions and example inputs\<close>

text \<open>
  The condition of the loop over the segments: a categorical segment with two listed
  categories or more.
\<close>

fun candidate :: "segment \<Rightarrow> bool" where
  "candidate (Categorical by cats) = (length cats \<ge> 2)"
| "candidate (Numeric_clusters m fs cs) = False"

text \<open>
  A small installation for the examples: dates are the months of 2024, written
  \<^verbatim>\<open>2024-01\<close> to \<^verbatim>\<open>2024-04\<close>, any other text does not parse; no correlation matrix and no
  clustering are available unless an example sets them; a float is printed as \<^verbatim>\<open>#\<close>.
\<close>

definition ex_months :: "(string \<times> int) list" where
  "ex_months = [(''2024-01'', 1), (''2024-02'', 2), (''2024-03'', 3), (''2024-04'', 4)]"

definition ex_to_datetime :: "string option list \<Rightarrow> int option list option" where
  "ex_to_datetime cells =
     (if list_all (\<lambda>c. case c of None \<Rightarrow> True | Some s \<Rightarrow> map_of ex_months s \<noteq> None) cells
      then Some (map (\<lambda>c. case c of None \<Rightarrow> None | Some s \<Rightarrow> map_of ex_months s) cells)
      else None)"

definition ex_strftime_ym :: "int \<Rightarrow> string" where
  "ex_strftime_ym d = (case map_of (map (\<lambda>p. (snd p, fst p)) ex_months) d of
                         None \<Rightarrow> ''?'' | Some s \<Rightarrow> s)"

definition ex_libs :: libs where
  "ex_libs = \<lparr>
     HAS_SCIPY = True,
     to_datetime = ex_to_datetime,
     strftime_ym = ex_strftime_ym,
     corr = (\<lambda>cols. None),
     fit_transform = (\<lambda>rows. None),
     fit_predict = (\<lambda>k seed n_init rows. None),
     str_float = (\<lambda>x. ''#''),
     format_2f = (\<lambda>x. ''#''),
     HAS_PROFILING = False,
     sys_version = ''3.11.4'',
     pd_version = ''2.1.0''\<rparr>"

text \<open>Three rows: a region column of three values and a plan column split 2 to 1.\<close>

definition ex_df_segments :: dataframe where
  "ex_df_segments = \<lparr>nrows = 3, columns =
     [\<lparr>name = ''region'', data = Object [Some ''north'', Some ''south'', Some ''west'']\<rparr>,
      \<lparr>name = ''plan'', data = Object [Some ''free'', Some ''free'', Some ''paid'']\<rparr>]\<rparr>"

text \<open>The segments found for a column split 80 to 20 over 100 rows.\<close>

definition ex_segments_80_20 :: "segment list" where
  "ex_segments_80_20 =
     [Categorical ''tier''
        [\<lparr>cat_name = ''basic'', cat_count = 80, percentage = 80\<rparr>,
         \<lparr>cat_name = ''premium'', cat_count = 20, percentage = 20\<rparr>]]"

text \<open>Three months of a revenue that doubles, from 50 to 100.\<close>

definition ex_month_col :: column where
  "ex_month_col = \<lparr>name = ''month'',
     data = Object [Some ''2024-01'', Some ''2024-02'', Some ''2024-03'']\<rparr>"

definition ex_revenue_col :: column where
  "ex_revenue_col = \<lparr>name = ''revenue'', data = Numeric [Some 50, Some 70, Some 100]\<rparr>"

definition ex_df_growth :: dataframe where
  "ex_df_growth = \<lparr>nrows = 3, columns = [ex_month_col, ex_revenue_col]\<rparr>"

text \<open>Three months of a balance that doubles, from -5 to -10.\<close>

definition ex_df_negative :: dataframe where
  "ex_df_negative = \<lparr>nrows = 3, columns =
     [ex_month_col, \<lparr>name = ''balance'', data = Numeric [Some (- 5), Some (- 7), Some (- 10)]\<rparr>]\<rparr>"

text \<open>Three rows of which one only has both a date and a value.\<close>

definition ex_gappy_month_col :: column where
  "ex_gappy_month_col = \<lparr>name = ''month'',
     data = Object [Some ''2024-01'', Some ''2024-02'', None]\<rparr>"

definition ex_gappy_revenue_col :: column where
  "ex_gappy_revenue_col = \<lparr>name = ''revenue'', data = Numeric [Some 10, None, Some 30]\<rparr>"

text \<open>One numeric column and one column of text with a single value.\<close>

definition ex_df_plain :: dataframe where
  "ex_df_plain = \<lparr>nrows = 3, columns =
     [\<lparr>name = ''units'', data = Numeric [Some 1, Some 2, Some 3]\<rparr>,
      \<lparr>name = ''country'', data = Object [Some ''NL'', Some ''NL'', Some ''NL'']\<rparr>]\<rparr>"

text \<open>
  Three numeric columns of three rows, a = 1, 2, 3, b = 1, 3, 2 and c = 3, 2, 1, and
  their Pearson coefficients: r(a, b) = 1/2, r(a, c) = -1, r(b, c) = -1/2.
\<close>

definition ex_df_abc :: dataframe where
  "ex_df_abc = \<lparr>nrows = 3, columns =
     [\<lparr>name = ''a'', data = Numeric [Some 1, Some 2, Some 3]\<rparr>,
      \<lparr>name = ''b'', data = Numeric [Some 1, Some 3, Some 2]\<rparr>,
      \<lparr>name = ''c'', data = Numeric [Some 3, Some 2, Some 1]\<rparr>]\<rparr>"

definition ex_corr_abc :: "nat \<Rightarrow> nat \<Rightarrow> real option" where
  "ex_corr_abc i j =
     (if i = j then Some 1
      else if {i, j} = {0, 1} then Some (1 / 2)
      else if {i, j} = {0, 2} then Some (- 1)
      else Some (- 1 / 2))"

definition ex_libs_abc :: libs where
  "ex_libs_abc = ex_libs\<lparr>corr := (\<lambda>cols. Some ex_corr_abc)\<rparr>"

text \<open>A numeric column of five values, one of them far from the others.\<close>

definition ex_df_outlier :: dataframe where
  "ex_df_outlier = \<lparr>nrows = 5, columns =
     [\<lparr>name = ''amount'', data = Numeric [Some 1, Some 2, Some 3, Some 4, Some 100]\<rparr>]\<rparr>"

text \<open>A frame with a column and no rows, and a frame whose cells are all null.\<close>

definition ex_df_empty :: dataframe where
  "ex_df_empty = \<lparr>nrows = 0, columns = [\<lparr>name = ''amount'', data = Numeric []\<rparr>]\<rparr>"

definition ex_df_all_null :: dataframe where
  "ex_df_all_null = \<lparr>nrows = 3, columns =
     [\<lparr>name = ''amount'', data = Numeric [None, None, None]\<rparr>,
      \<lparr>name = ''note'', data = Object [None, None, None]\<rparr>]\<rparr>"

text \<open>
  Ten rows of two numeric columns, and an installation whose scaler changes nothing
  and whose clustering, for the seed 42, labels a row by its first feature (below 4,
  below 8, or more); for another seed it puts all rows in one cluster, or fails.
\<close>

definition ex_df_clusters :: dataframe where
  "ex_df_clusters = \<lparr>nrows = 10, columns =
     [\<lparr>name = ''visits'', data = Numeric (map (\<lambda>n. Some (real n)) [1 ..< 11])\<rparr>,
      \<lparr>name = ''spend'', data = Numeric (map (\<lambda>n. Some (2 * real n)) [1 ..< 11])\<rparr>]\<rparr>"

definition ex_labels :: "real list list \<Rightarrow> nat list" where
  "ex_labels rows = map (\<lambda>r. if hd r < 4 then 0 else if hd r < 8 then 1 else 2) rows"

definition ex_libs_kmeans :: libs where
  "ex_libs_kmeans = ex_libs\<lparr>
     fit_transform := (\<lambda>rows. Some rows),
     fit_predict := (\<lambda>k seed n_init rows.
        if seed = 42 then Some (ex_labels rows) else Some (map (\<lambda>r. 0) rows))\<rparr>"

definition ex_kmeans_other :: "nat \<Rightarrow> nat \<Rightarrow> nat \<Rightarrow> real list list \<Rightarrow> nat list option" where
  "ex_kmeans_other k seed n_init rows = (if seed = 42 then Some (ex_labels rows) else None)"

section \<open>Properties\<close>

subsection \<open>The quality score\<close>

lemma py_min_finite: "\<exists>v. py_min (Some a) x = Some v"
  by (cases x) (simp_all add: py_min_def)

lemma quality_score_penalty_finite:
  "\<exists>v. py_min (Some 40) (float_mul (float_mul
      (np_true_divide (real (missing_values_total df))
         (real (nrows df * length (columns df)))) 100) 2) = Some v"
  by (rule py_min_finite)

lemma calculate_data_quality_score_total: "\<exists>s. calculate_data_quality_score df = Inr s"
proof -
  obtain v where "py_min (Some 40) (float_mul (float_mul
      (np_true_divide (real (missing_values_total df))
         (real (nrows df * length (columns df)))) 100) 2) = Some v"
    using quality_score_penalty_finite by blast
  then show ?thesis
    by (simp add: calculate_data_quality_score_def Let_def float_sub_def float_add_def
        py_int_def)
qed

text \<open>
  C2. For every data frame, also one with no rows, no columns or only null cells, the
  quality scorer raises no error and returns an integer from 0 to 100: the division by
  a zero cell count gives a non-finite float, which \<^verbatim>\<open>min\<close> replaces by 40 before it
  can reach \<^verbatim>\<open>int\<close>.
\<close>

theorem C2_quality_score_in_range:
  "\<exists>s. calculate_data_quality_score df = Inr s \<and> 0 \<le> s \<and> s \<le> 100"
proof -
  obtain v where "py_min (Some 40) (float_mul (float_mul
      (np_true_divide (real (missing_values_total df))
         (real (nrows df * length (columns df)))) 100) 2) = Some v"
    using quality_score_penalty_finite by blast
  then show ?thesis
    by (simp add: calculate_data_quality_score_def Let_def float_sub_def float_add_def
        py_int_def)
qed

theorem C2_quality_score_in_range_witness:
  "calculate_data_quality_score ex_df_empty = Inr 40 \<and>
   calculate_data_quality_score ex_df_all_null = Inr 40"
proof -
  obtain s where s: "calculate_data_quality_score ex_df_empty = Inr s"
    using C2_quality_score_in_range [of ex_df_empty] by blast
  have e: "np_true_divide (real (missing_values_total ex_df_empty))
      (real (nrows ex_df_empty * length (columns ex_df_empty))) = None"
    by (simp add: np_true_divide_def ex_df_empty_def)
  have "calculate_data_quality_score ex_df_empty = Inr 40"
    unfolding calculate_data_quality_score_def Let_def e
    by (simp add: float_mul_def py_min_def float_sub_def float_add_def py_int_def
        ex_df_empty_def numeric_cols_def categorical_cols_def)
  moreover have "calculate_data_quality_score ex_df_all_null = Inr 40"
    by code_simp
  ultimately show ?thesis using s by simp
qed

subsection \<open>The synthesizer\<close>

lemma fold_max_key_in:
  "fold (\<lambda>y best. if f y > f best then y else best) xs x \<in> set (x # xs)"
  by (induction xs arbitrary: x) auto

lemma fold_max_key_ge_init:
  "(f :: 'a \<Rightarrow> real) x \<le> f (fold (\<lambda>y best. if f y > f best then y else best) xs x)"
proof (induction xs arbitrary: x)
  case Nil
  show ?case by simp
next
  case (Cons y ys)
  show ?case
  proof (cases "f y > f x")
    case True
    with Cons [of y] show ?thesis by simp
  next
    case False
    with Cons [of x] show ?thesis by simp
  qed
qed

lemma fold_max_key_ge:
  "y \<in> set xs \<Longrightarrow>
     (f :: 'a \<Rightarrow> real) y \<le> f (fold (\<lambda>y best. if f y > f best then y else best) xs x)"
proof (induction xs arbitrary: x)
  case Nil
  then show ?case by simp
next
  case (Cons z zs)
  show ?case
  proof (cases "y = z")
    case True
    have "f z \<le> f (if f z > f x then z else x)" by simp
    also have "\<dots> \<le> f (fold (\<lambda>y best. if f y > f best then y else best) zs
        (if f z > f x then z else x))"
      by (rule fold_max_key_ge_init)
    finally show ?thesis using True by simp
  next
    case False
    with Cons.prems have "y \<in> set zs" by simp
    from Cons.IH [OF this] show ?thesis by simp
  qed
qed

lemma py_max_key_greatest:
  "xs \<noteq> [] \<Longrightarrow> \<exists>m. py_max_key f xs = Inr m \<and> m \<in> set xs \<and> (\<forall>y\<in>set xs. f y \<le> f m)"
proof (cases xs)
  case Nil
  assume "xs \<noteq> []"
  with Nil show ?thesis by simp
next
  case (Cons x rest)
  let ?m = "fold (\<lambda>y best. if f y > f best then y else best) rest x"
  have "?m \<in> set xs" using fold_max_key_in [of f rest x] Cons by simp
  moreover have "\<forall>y\<in>set xs. f y \<le> f ?m"
    using fold_max_key_ge_init [of f x rest] fold_max_key_ge [of _ rest f x] Cons by auto
  ultimately show ?thesis using Cons by simp
qed

lemma segment_insights_skip:
  "list_all (\<lambda>s. \<not> candidate s) pre \<Longrightarrow>
     segment_insights L (pre @ rest) = segment_insights L rest"
proof (induction pre)
  case Nil
  show ?case by simp
next
  case (Cons s pre)
  then show ?case by (cases s) simp_all
qed

text \<open>
  C1 (as the code has it). The loop over the segments ends at the first categorical
  segment with two listed categories or more, whatever its shares: when there is no
  such segment no segmentation insight is emitted; otherwise the insight is emitted
  for that first segment exactly when its largest listed percentage is at least 40,
  with the kind \<^verbatim>\<open>market_segmentation\<close>, impact \<^verbatim>\<open>medium\<close> and template \<^verbatim>\<open>segment_breakdown\<close>,
  and the segments after it are not looked at.
\<close>

theorem C1_first_candidate_segment_decides:
  "(list_all (\<lambda>s. \<not> candidate s) segs \<longrightarrow> segment_insights L segs = []) \<and>
   (list_all (\<lambda>s. \<not> candidate s) pre \<and> 2 \<le> length cats \<longrightarrow>
      (\<exists>largest. largest \<in> set cats \<and> (\<forall>c\<in>set cats. percentage c \<le> percentage largest) \<and>
         segment_insights L (pre @ Categorical label cats # rest) =
           (if percentage largest \<ge> 40 then
              [\<lparr>insight_type = ''market_segmentation'',
                title = label @ '' Distribution Analysis'',
                description = cat_name largest @ '' represents '' @
                  str_float L (percentage largest) @ ''% of the data'',
                business_impact = ''medium'',
                slide_recommendation = ''segment_breakdown''\<rparr>]
            else [])))"
proof (intro conjI impI)
  assume "list_all (\<lambda>s. \<not> candidate s) segs"
  then have "segment_insights L (segs @ []) = segment_insights L []"
    by (rule segment_insights_skip)
  then show "segment_insights L segs = []" by simp
next
  assume a: "list_all (\<lambda>s. \<not> candidate s) pre \<and> 2 \<le> length cats"
  then have "cats \<noteq> []" by auto
  then obtain m where m: "py_max_key percentage cats = Inr m" "m \<in> set cats"
    "\<forall>c\<in>set cats. percentage c \<le> percentage m"
    using py_max_key_greatest [of cats percentage] by blast
  have "segment_insights L (pre @ Categorical label cats # rest) =
      segment_insights L (Categorical label cats # rest)"
    using a by (simp add: segment_insights_skip)
  with a m show "\<exists>largest. largest \<in> set cats \<and>
      (\<forall>c\<in>set cats. percentage c \<le> percentage largest) \<and>
         segment_insights L (pre @ Categorical label cats # rest) =
           (if percentage largest \<ge> 40 then
              [\<lparr>insight_type = ''market_segmentation'',
                title = label @ '' Distribution Analysis'',
                description = cat_name largest @ '' represents '' @
                  str_float L (percentage largest) @ ''% of the data'',
                business_impact = ''medium'',
                slide_recommendation = ''segment_breakdown''\<rparr>]
            else [])"
    by (intro exI [of _ m]) simp
qed


theorem C1_first_candidate_segment_decides_witness:
  "list_all (\<lambda>s. \<not> candidate s) [Numeric_clusters ''kmeans'' [] []] \<and>
   2 \<le> length [\<lparr>cat_name = ''basic'', cat_count = 80, percentage = 80\<rparr>,
                 \<lparr>cat_name = ''premium'', cat_count = 20, percentage = 20\<rparr>] \<and>
   segment_insights ex_libs (Numeric_clusters ''kmeans'' [] [] # ex_segments_80_20) =
     [\<lparr>insight_type = ''market_segmentation'',
       title = ''tier Distribution Analysis'',
       description = ''basic represents #% of the data'',
       business_impact = ''medium'',
       slide_recommendation = ''segment_breakdown''\<rparr>]"
proof -
  let ?cats = "[\<lparr>cat_name = ''basic'', cat_count = 80, percentage = 80\<rparr>,
                \<lparr>cat_name = ''premium'', cat_count = 20, percentage = 20\<rparr>]"
  have pre: "list_all (\<lambda>s. \<not> candidate s) [Numeric_clusters ''kmeans'' [] []]" by simp
  have len: "2 \<le> length ?cats" by simp
  from C1_first_candidate_segment_decides
    [where pre = "[Numeric_clusters ''kmeans'' [] []]" and cats = ?cats and L = ex_libs
       and label = "''tier''" and rest = "[]"] pre len
  obtain largest where l: "largest \<in> set ?cats"
    "\<forall>c\<in>set ?cats. percentage c \<le> percentage largest"
    "segment_insights ex_libs ([Numeric_clusters ''kmeans'' [] []] @ [Categorical ''tier'' ?cats]) =
       (if percentage largest \<ge> 40 then
          [\<lparr>insight_type = ''market_segmentation'',
            title = ''tier'' @ '' Distribution Analysis'',
            description = cat_name largest @ '' represents '' @
              str_float ex_libs (percentage largest) @ ''% of the data'',
            business_impact = ''medium'',
            slide_recommendation = ''segment_breakdown''\<rparr>]
        else [])"
    by blast
  from l(1,2) have "largest = \<lparr>cat_name = ''basic'', cat_count = 80, percentage = 80\<rparr>"
    by auto
  with l(3) pre len show ?thesis
    by (simp add: ex_segments_80_20_def ex_libs_def)
qed

text \<open>
  C1 as stated fails. In the three-row frame the first segment (region, three
  categories of 33.3 percent) does not qualify and the second (plan, 66.7 percent
  for its largest category) does; the loop has ended at the first, and no
  segmentation insight is emitted.
\<close>

theorem C1_later_segment_counterexample:
  "analyze_segments ex_libs ex_df_segments =
     [Categorical ''region''
        [\<lparr>cat_name = ''north'', cat_count = 1, percentage = 333 / 10\<rparr>,
         \<lparr>cat_name = ''south'', cat_count = 1, percentage = 333 / 10\<rparr>,
         \<lparr>cat_name = ''west'', cat_count = 1, percentage = 333 / 10\<rparr>],
      Categorical ''plan''
        [\<lparr>cat_name = ''free'', cat_count = 2, percentage = 667 / 10\<rparr>,
         \<lparr>cat_name = ''paid'', cat_count = 1, percentage = 333 / 10\<rparr>]] \<and>
   segment_insights ex_libs (analyze_segments ex_libs ex_df_segments) = []"
  by code_simp

lemma trend_insights_cases:
  "trend_insights L ts = [] \<or>
   (\<exists>i. trend_insights L ts = [i] \<and> insight_type i = ''growth_opportunity'')"
  by (auto simp: trend_insights_def Let_def split: sum.splits)

lemma correlation_insights_cases:
  "correlation_insights cs = [] \<or>
   (\<exists>i. correlation_insights cs = [i] \<and> insight_type i = ''relationship_discovery'')"
  by (auto simp: correlation_insights_def split: list.splits)

lemma segment_insights_cases:
  "segment_insights L ss = [] \<or>
   (\<exists>i. segment_insights L ss = [i] \<and> insight_type i = ''market_segmentation'')"
  by (induction L ss rule: segment_insights.induct) (auto split: sum.splits)

lemma key_insights_kinds:
  "subseq (map insight_type (key_insights_of L ts cs ss))
     [''growth_opportunity'', ''relationship_discovery'', ''market_segmentation'']
   \<and> length (key_insights_of L ts cs ss) \<le> 3"
  using trend_insights_cases [of L ts] correlation_insights_cases [of cs]
    segment_insights_cases [of L ss]
  unfolding key_insights_of_def
  by (elim disjE exE conjE) simp_all

lemma analyze_dataframe_Inr:
  "calculate_data_quality_score df = Inr q \<Longrightarrow>
   analyze_dataframe L now df = Inr \<lparr>
     basic_stats = \<lparr>
       row_count = nrows df,
       column_count = length (columns df),
       numeric_columns = length (numeric_cols df),
       categorical_columns = length (categorical_cols df),
       missing_values = missing_values_total df,
       missing_percentage = map_option (\<lambda>p. py_round p 2)
         (float_mul (np_true_divide (real (missing_values_total df))
            (real (nrows df * length (columns df)))) 100)\<rparr>,
     data_quality_score = q,
     trends = detect_trends L df,
     outliers = detect_outliers df,
     correlations = analyze_correlations L df,
     segments = analyze_segments L df,
     key_insights = key_insights_of L (detect_trends L df) (analyze_correlations L df)
       (analyze_segments L df),
     slide_recs = \<lparr>
       total_slides_suggested = min 8 (max 4 (int (length (key_insights_of L
         (detect_trends L df) (analyze_correlations L df) (analyze_segments L df))) + 2)),
       narrative_arc = determine_narrative_arc (detect_trends L df)
         (analyze_correlations L df) (analyze_segments L df),
       chart_types_recommended = recommend_chart_types df (detect_trends L df)
         (analyze_correlations L df) (analyze_segments L df)\<rparr>,
     meta = \<lparr>analysis_timestamp = now, python_version = sys_version L,
       pandas_version = pd_version L, has_profiling = HAS_PROFILING L,
       has_scipy = HAS_SCIPY L\<rparr>\<rparr>"
  by (simp add: analyze_dataframe_def Let_def)

text \<open>
  C9. The report is always produced, its insights are at most one of each kind, in the
  order growth_opportunity, relationship_discovery, market_segmentation, so they are
  three at most, and the suggested number of slides is 4 or 5.
\<close>

theorem C9_insights_one_of_each_kind:
  "\<exists>r. analyze_dataframe L now df = Inr r \<and>
     subseq (map insight_type (key_insights r))
       [''growth_opportunity'', ''relationship_discovery'', ''market_segmentation''] \<and>
     length (key_insights r) \<le> 3 \<and>
     (total_slides_suggested (slide_recs r) = 4 \<or> total_slides_suggested (slide_recs r) = 5)"
proof -
  obtain q where q: "calculate_data_quality_score df = Inr q"
    using calculate_data_quality_score_total [of df] by blast
  let ?k = "key_insights_of L (detect_trends L df) (analyze_correlations L df)
    (analyze_segments L df)"
  have k: "subseq (map insight_type ?k)
       [''growth_opportunity'', ''relationship_discovery'', ''market_segmentation'']"
    and l: "length ?k \<le> 3"
    using key_insights_kinds by blast+
  have "min 8 (max 4 (int (length ?k) + 2)) = 4 \<or> min 8 (max 4 (int (length ?k) + 2)) = 5"
    using l by auto
  with k l show ?thesis
    unfolding analyze_dataframe_Inr [OF q] by simp
qed

theorem C9_insights_one_of_each_kind_witness:
  "\<exists>r. analyze_dataframe ex_libs ''2024-05-01T00:00:00'' ex_df_segments = Inr r \<and>
     key_insights r = [] \<and> total_slides_suggested (slide_recs r) = 4"
proof -
  from C9_insights_one_of_each_kind [of ex_libs "''2024-05-01T00:00:00''" ex_df_segments]
  obtain r where r: "analyze_dataframe ex_libs ''2024-05-01T00:00:00'' ex_df_segments = Inr r"
    by blast
  obtain q where q: "calculate_data_quality_score ex_df_segments = Inr q"
    using calculate_data_quality_score_total by blast
  have t: "detect_trends ex_libs ex_df_segments = []" by code_simp
  have c: "analyze_correlations ex_libs ex_df_segments = []" by code_simp
  have s: "segment_insights ex_libs (analyze_segments ex_libs ex_df_segments) = []"
    by code_simp
  have "key_insights r = []"
    using r unfolding analyze_dataframe_Inr [OF q]
    by (auto simp: key_insights_of_def t c s trend_insights_def correlation_insights_def)
  moreover have "total_slides_suggested (slide_recs r) = 4"
    using r unfolding analyze_dataframe_Inr [OF q]
    by (auto simp: key_insights_of_def t c s trend_insights_def correlation_insights_def)
  ultimately show ?thesis using r by blast
qed

subsection \<open>The narrative arc\<close>

lemma length_value_counts: "length (value_counts cells) = card (set (dropna cells))"
  by (simp add: value_counts_def Let_def length_remdups_card_conv)

lemma categorical_segment_empty:
  "\<not> (2 \<le> card (set (dropna (obj_cells c))) \<and> card (set (dropna (obj_cells c))) \<le> 10) \<Longrightarrow>
     categorical_segment df c = []"
  unfolding categorical_segment_def Let_def length_value_counts by simp

lemma concat_map_empty: "(\<And>x. x \<in> set xs \<Longrightarrow> f x = []) \<Longrightarrow> concat (map f xs) = []"
  by (induction xs) simp_all

lemma determine_narrative_arc_priority:
  "determine_narrative_arc ts cs ss =
     (if list_ex (\<lambda>t. direction t = ''growth'') ts then ''growth_story''
      else if 2 \<le> length cs then ''relationship_analysis''
      else if 1 \<le> length ss then ''segmentation_insights''
      else ''data_summary'')"
  by (cases ts; cases cs; cases ss) (simp_all add: determine_narrative_arc_def)

text \<open>
  C7. The narrative arc follows the priority growth_story (a trend of direction
  growth), relationship_analysis (two correlations or more), segmentation_insights (a
  segment), data_summary; and for a frame with no date-like column, fewer than two
  numeric columns and no column of text with 2 to 10 distinct values, the analyzers
  find no trend, correlation or segment and the arc is data_summary.
\<close>

theorem C7_narrative_arc_data_summary:
  "determine_narrative_arc ts cs ss =
     (if list_ex (\<lambda>t. direction t = ''growth'') ts then ''growth_story''
      else if 2 \<le> length cs then ''relationship_analysis''
      else if 1 \<le> length ss then ''segmentation_insights''
      else ''data_summary'') \<and>
   (date_cols L df = [] \<and> length (numeric_cols df) < 2 \<and>
    (\<forall>c\<in>set (categorical_cols df).
       \<not> (2 \<le> card (set (dropna (obj_cells c))) \<and> card (set (dropna (obj_cells c))) \<le> 10)) \<longrightarrow>
    (\<exists>r. analyze_dataframe L now df = Inr r \<and> trends r = [] \<and> correlations r = [] \<and>
       segments r = [] \<and> narrative_arc (slide_recs r) = ''data_summary''))"
proof (intro conjI impI)
  show "determine_narrative_arc ts cs ss =
     (if list_ex (\<lambda>t. direction t = ''growth'') ts then ''growth_story''
      else if 2 \<le> length cs then ''relationship_analysis''
      else if 1 \<le> length ss then ''segmentation_insights''
      else ''data_summary'')"
    by (rule determine_narrative_arc_priority)
next
  assume a: "date_cols L df = [] \<and> length (numeric_cols df) < 2 \<and>
    (\<forall>c\<in>set (categorical_cols df).
       \<not> (2 \<le> card (set (dropna (obj_cells c))) \<and> card (set (dropna (obj_cells c))) \<le> 10))"
  obtain q where q: "calculate_data_quality_score df = Inr q"
    using calculate_data_quality_score_total by blast
  have t: "detect_trends L df = []"
    using a by (simp add: detect_trends_def)
  have c: "analyze_correlations L df = []"
    using a by (simp add: analyze_correlations_def Let_def)
  have "concat (map (categorical_segment df) (take 3 (categorical_cols df))) = []"
  proof (rule concat_map_empty)
    fix x assume "x \<in> set (take 3 (categorical_cols df))"
    then have "x \<in> set (categorical_cols df)" by (rule in_set_takeD)
    with a show "categorical_segment df x = []"
      by (intro categorical_segment_empty) blast
  qed
  then have s: "analyze_segments L df = []"
    using a by (simp add: analyze_segments_def)
  show "\<exists>r. analyze_dataframe L now df = Inr r \<and> trends r = [] \<and> correlations r = [] \<and>
       segments r = [] \<and> narrative_arc (slide_recs r) = ''data_summary''"
    unfolding analyze_dataframe_Inr [OF q] t c s
    by (simp add: determine_narrative_arc_def)
qed


theorem C7_narrative_arc_data_summary_witness:
  "date_cols ex_libs ex_df_plain = [] \<and> length (numeric_cols ex_df_plain) = 1 \<and>
   map (\<lambda>c. card (set (dropna (obj_cells c)))) (categorical_cols ex_df_plain) = [1] \<and>
   (\<exists>r. analyze_dataframe ex_libs ''2024-05-01T00:00:00'' ex_df_plain = Inr r \<and>
      narrative_arc (slide_recs r) = ''data_summary'')"
proof -
  have d: "date_cols ex_libs ex_df_plain = []" by code_simp
  have n: "length (numeric_cols ex_df_plain) = 1" by code_simp
  have c: "map (\<lambda>c. card (set (dropna (obj_cells c)))) (categorical_cols ex_df_plain) = [1]"
    by code_simp
  have c': "\<forall>c\<in>set (categorical_cols ex_df_plain).
      \<not> (2 \<le> card (set (dropna (obj_cells c))) \<and> card (set (dropna (obj_cells c))) \<le> 10)"
  proof
    fix x assume "x \<in> set (categorical_cols ex_df_plain)"
    then have "card (set (dropna (obj_cells x))) \<in>
        set (map (\<lambda>c. card (set (dropna (obj_cells c)))) (categorical_cols ex_df_plain))"
      by simp
    then show "\<not> (2 \<le> card (set (dropna (obj_cells x))) \<and>
        card (set (dropna (obj_cells x))) \<le> 10)"
      unfolding c by simp
  qed
  have h: "date_cols ex_libs ex_df_plain = [] \<and> length (numeric_cols ex_df_plain) < 2 \<and>
    (\<forall>c\<in>set (categorical_cols ex_df_plain).
       \<not> (2 \<le> card (set (dropna (obj_cells c))) \<and> card (set (dropna (obj_cells c))) \<le> 10))"
    using d n c' by simp
  from C7_narrative_arc_data_summary
      [where L = ex_libs and df = ex_df_plain and now = "''2024-05-01T00:00:00''",
        THEN conjunct2, rule_format, OF h]
  have "\<exists>r. analyze_dataframe ex_libs ''2024-05-01T00:00:00'' ex_df_plain = Inr r \<and>
      narrative_arc (slide_recs r) = ''data_summary''"
    by blast
  with d n c show ?thesis by blast
qed

subsection \<open>Trends\<close>

text \<open>
  C8. When the dates of the column parse and fewer than three rows of a (date
  column, metric) pair have both a date and a value, the body of the loop for that
  pair ends without an exception and appends no trend; \<open>detect_trends\<close> is the
  concatenation of what the pairs append.
\<close>

theorem C8_short_pair_no_trend:
  "to_datetime L (obj_cells date_col) = Some dates \<Longrightarrow>
   length (usable_rows dates metric_col) < 3 \<Longrightarrow>
     trend_of_pair L date_col metric_col = Inr None \<and>
     trends_of_pair L date_col metric_col = []"
  by (simp add: trend_of_pair_def trends_of_pair_def Let_def)


theorem C8_short_pair_no_trend_witness:
  "to_datetime ex_libs (obj_cells ex_gappy_month_col) = Some [Some 1, Some 2, None] \<and>
   usable_rows [Some 1, Some 2, None] ex_gappy_revenue_col = [(1, 10)] \<and>
   trend_of_pair ex_libs ex_gappy_month_col ex_gappy_revenue_col = Inr None \<and>
   trends_of_pair ex_libs ex_gappy_month_col ex_gappy_revenue_col = []"
proof -
  have p: "to_datetime ex_libs (obj_cells ex_gappy_month_col) = Some [Some 1, Some 2, None]"
    by code_simp
  have u: "usable_rows [Some 1, Some 2, None] ex_gappy_revenue_col = [(1, 10)]"
    by code_simp
  have "length (usable_rows [Some 1, Some 2, None] ex_gappy_revenue_col) < 3"
    unfolding u by simp
  from C8_short_pair_no_trend [OF p this] p u show ?thesis by blast
qed

lemma py_round_100: "py_round 100 (Suc 0) = 100"
  by (simp add: py_round_def round_half_even_def Let_def)

lemma trend_of_pair_Some:
  assumes "to_datetime L (obj_cells d) = Some dates"
    and "3 \<le> length (usable_rows dates m)"
  shows "\<exists>t. trend_of_pair L d m = Inr (Some t) \<and> metric t = name m \<and>
     overall_change_pct t =
       py_round (if snd (hd (usable_rows dates m)) \<noteq> 0
                 then (snd (last (usable_rows dates m)) - snd (hd (usable_rows dates m))) /
                      \<bar>snd (hd (usable_rows dates m))\<bar> * 100
                 else 0) 1 \<and>
     direction t =
       (if (if snd (hd (usable_rows dates m)) \<noteq> 0
            then (snd (last (usable_rows dates m)) - snd (hd (usable_rows dates m))) /
                 \<bar>snd (hd (usable_rows dates m))\<bar> * 100
            else 0) > 5 then ''growth''
        else if (if snd (hd (usable_rows dates m)) \<noteq> 0
            then (snd (last (usable_rows dates m)) - snd (hd (usable_rows dates m))) /
                 \<bar>snd (hd (usable_rows dates m))\<bar> * 100
            else 0) < - 5 then ''decline'' else ''stable'')"
proof -
  let ?rows = "usable_rows dates m"
  let ?vs = "map snd ?rows"
  have ne: "?rows \<noteq> []" using assms(2) by auto
  have first: "?vs ! 0 = snd (hd ?rows)"
    using ne by (simp add: hd_conv_nth)
  have lst: "?vs ! (length ?vs - 1) = snd (last ?rows)"
    using ne by (simp add: last_conv_nth)
  have n2: "2 \<le> length ?vs" using assms(2) by simp
  have n3: "3 \<le> length ?rows" by (rule assms(2))
  show ?thesis
    unfolding trend_of_pair_def Let_def assms(1) option.case if_P [OF n3] if_P [OF n2]
      first lst
    by (intro exI conjI) (rule refl, simp_all)
qed

lemma trend_of_pair_doubling:
  assumes "to_datetime L (obj_cells d) = Some dates"
    and "3 \<le> length (usable_rows dates m)"
    and "0 < snd (hd (usable_rows dates m))"
    and "snd (last (usable_rows dates m)) = 2 * snd (hd (usable_rows dates m))"
  shows "\<exists>t. trends_of_pair L d m = [t] \<and> metric t = name m \<and> direction t = ''growth'' \<and>
     overall_change_pct t = 100"
proof -
  let ?f = "snd (hd (usable_rows dates m))"
  have og: "(if ?f \<noteq> 0 then (snd (last (usable_rows dates m)) - ?f) / \<bar>?f\<bar> * 100 else 0) = 100"
    using assms(3,4) by simp
  obtain t where t: "trend_of_pair L d m = Inr (Some t)" "metric t = name m"
    "overall_change_pct t = py_round 100 1" "direction t = ''growth''"
    using trend_of_pair_Some [OF assms(1,2)] unfolding og by auto
  have "trends_of_pair L d m = [t]"
    using t(1) by (simp add: trends_of_pair_def)
  with t show ?thesis by (simp add: py_round_100)
qed

text \<open>
  C6 (as the code has it). When the first date-like column parses, a metric among
  the first three numeric columns has three usable rows or more, its first value in
  date order is positive and its last value is twice the first, a trend for that
  metric is reported with direction growth and an overall change of 100.0 percent.
\<close>

theorem C6_doubling_from_positive_is_growth:
  assumes "date_cols L df = d # ds"
    and "m \<in> set (take 3 (numeric_cols df))"
    and "to_datetime L (obj_cells d) = Some dates"
    and "3 \<le> length (usable_rows dates m)"
    and "0 < snd (hd (usable_rows dates m))"
    and "snd (last (usable_rows dates m)) = 2 * snd (hd (usable_rows dates m))"
  shows "\<exists>t\<in>set (detect_trends L df). metric t = name m \<and> direction t = ''growth'' \<and>
     overall_change_pct t = 100"
proof -
  obtain t where t: "trends_of_pair L d m = [t]" "metric t = name m"
    "direction t = ''growth''" "overall_change_pct t = 100"
    using trend_of_pair_doubling [OF assms(3-6)] by blast
  have "numeric_cols df \<noteq> []" using assms(2) by auto
  then have "detect_trends L df = concat (map (trends_of_pair L d) (take 3 (numeric_cols df)))"
    using assms(1) by (simp add: detect_trends_def)
  then have "t \<in> set (detect_trends L df)"
    using assms(2) t(1) by (auto intro!: bexI [of _ m])
  with t show ?thesis by blast
qed


theorem C6_doubling_from_positive_is_growth_witness:
  "date_cols ex_libs ex_df_growth = [ex_month_col] \<and>
   take 3 (numeric_cols ex_df_growth) = [ex_revenue_col] \<and>
   to_datetime ex_libs (obj_cells ex_month_col) = Some [Some 1, Some 2, Some 3] \<and>
   usable_rows [Some 1, Some 2, Some 3] ex_revenue_col = [(1, 50), (2, 70), (3, 100)] \<and>
   list_ex (\<lambda>t. metric t = ''revenue'' \<and> direction t = ''growth'' \<and> overall_change_pct t = 100)
     (detect_trends ex_libs ex_df_growth)"
proof -
  have d: "date_cols ex_libs ex_df_growth = [ex_month_col]" by code_simp
  have n: "take 3 (numeric_cols ex_df_growth) = [ex_revenue_col]" by code_simp
  have p: "to_datetime ex_libs (obj_cells ex_month_col) = Some [Some 1, Some 2, Some 3]"
    by code_simp
  have u: "usable_rows [Some 1, Some 2, Some 3] ex_revenue_col = [(1, 50), (2, 70), (3, 100)]"
    by code_simp
  have m: "ex_revenue_col \<in> set (take 3 (numeric_cols ex_df_growth))"
    unfolding n by simp
  have "\<exists>t\<in>set (detect_trends ex_libs ex_df_growth).
      metric t = name ex_revenue_col \<and> direction t = ''growth'' \<and> overall_change_pct t = 100"
    by (rule C6_doubling_from_positive_is_growth [OF d m p]) (simp_all add: u)
  then have "list_ex (\<lambda>t. metric t = ''revenue'' \<and> direction t = ''growth'' \<and>
      overall_change_pct t = 100) (detect_trends ex_libs ex_df_growth)"
    by (simp add: list_ex_iff ex_revenue_col_def)
  with d n p u show ?thesis by blast
qed

text \<open>
  C6 as stated fails for a metric that doubles from a negative value: the change is
  taken relative to the absolute value of the first value, so a balance going from
  -5 to -10 is reported as a decline of 100 percent. (A metric that stays at 0 also
  doubles, and is reported as stable.)
\<close>

theorem C6_negative_doubling_counterexample:
  "detect_trends ex_libs ex_df_negative =
     [\<lparr>metric = ''balance'',
       timeframe = ''2024-01 to 2024-03'',
       direction = ''decline'',
       overall_change_pct = - 100,
       latest_period_change_pct = - 429 / 10,
       confidence = 50\<rparr>]"
  by code_simp

subsection \<open>Correlations\<close>

lemma round_half_even_ge: "of_int k \<le> x \<Longrightarrow> k \<le> round_half_even x"
proof -
  assume "of_int k \<le> x"
  then have "k \<le> \<lfloor>x\<rfloor>" by (simp add: le_floor_iff)
  then show ?thesis by (simp add: round_half_even_def Let_def)
qed

lemma round_half_even_le: "x \<le> of_int k \<Longrightarrow> round_half_even x \<le> k"
proof -
  assume a: "x \<le> of_int k"
  show ?thesis
  proof (cases "x = of_int \<lfloor>x\<rfloor>")
    case True
    then have "x - of_int \<lfloor>x\<rfloor> = 0" by simp
    then have "round_half_even x = \<lfloor>x\<rfloor>" by (simp add: round_half_even_def Let_def)
    moreover have "\<lfloor>x\<rfloor> \<le> k" using a by (simp add: floor_le_iff)
    ultimately show ?thesis by simp
  next
    case False
    have "of_int \<lfloor>x\<rfloor> \<le> x" by (rule of_int_floor_le)
    then have "of_int \<lfloor>x\<rfloor> < x" using False by (metis less_le)
    with a have "of_int \<lfloor>x\<rfloor> < (of_int k :: real)" by linarith
    then have "\<lfloor>x\<rfloor> < k" by simp
    then have "\<lfloor>x\<rfloor> + 1 \<le> k" by simp
    moreover have "round_half_even x \<le> \<lfloor>x\<rfloor> + 1"
      by (simp add: round_half_even_def Let_def)
    ultimately show ?thesis by linarith
  qed
qed

lemma py_round_3_abs_ge_half: "1 / 2 \<le> \<bar>r\<bar> \<Longrightarrow> 1 / 2 \<le> \<bar>py_round r 3\<bar>"
proof -
  assume a: "1 / 2 \<le> \<bar>r\<bar>"
  show ?thesis
  proof (cases "0 \<le> r")
    case True
    with a have "of_int 500 \<le> r * 10 ^ 3" by simp
    then have "500 \<le> round_half_even (r * 10 ^ 3)" by (rule round_half_even_ge)
    then have "(500::real) \<le> of_int (round_half_even (r * 10 ^ 3))" by linarith
    then show ?thesis by (simp add: py_round_def)
  next
    case False
    with a have "r * 10 ^ 3 \<le> of_int (- 500)" by simp
    then have "round_half_even (r * 10 ^ 3) \<le> - 500" by (rule round_half_even_le)
    then have "of_int (round_half_even (r * 10 ^ 3)) \<le> (- 500::real)" by linarith
    then show ?thesis by (simp add: py_round_def)
  qed
qed

lemma correlation_of_pair_sound:
  "c \<in> set (correlation_of_pair L cols M i j) \<Longrightarrow>
     \<exists>r. M i j = Some r \<and> 1 / 2 \<le> \<bar>r\<bar> \<and> correlation c = py_round r 3"
proof (cases "M i j")
  case None
  assume "c \<in> set (correlation_of_pair L cols M i j)"
  with None show ?thesis by (simp add: correlation_of_pair_def Let_def)
next
  case (Some r)
  assume c: "c \<in> set (correlation_of_pair L cols M i j)"
  show ?thesis
  proof (cases "5 / 10 \<le> \<bar>r\<bar>")
    case True
    with c Some have "correlation c = py_round r 3"
      by (simp add: correlation_of_pair_def Let_def)
    with True Some show ?thesis by simp
  next
    case False
    with c Some show ?thesis by (simp add: correlation_of_pair_def Let_def)
  qed
qed

lemma sort_by_abs_correlation_sorted:
  "sorted_wrt (\<lambda>a b. \<bar>correlation b\<bar> \<le> \<bar>correlation a\<bar>) (sort_by_abs_correlation cs)"
proof -
  have "sorted (map (\<lambda>c. - \<bar>correlation c\<bar>) (sort_key (\<lambda>c. - \<bar>correlation c\<bar>) cs))"
    by (rule sorted_sort_key)
  then show ?thesis
    by (simp add: sort_by_abs_correlation_def sorted_map)
qed

lemma set_sort_by_abs_correlation: "set (sort_by_abs_correlation cs) = set cs"
  by (simp add: sort_by_abs_correlation_def)

lemma analyze_correlations_cases:
  "analyze_correlations L df = [] \<or>
   (\<exists>M. corr L (map num_cells (numeric_cols df)) = Some M \<and>
      analyze_correlations L df = take 5 (sort_by_abs_correlation
        (concat (map (\<lambda>i. concat (map (\<lambda>j.
           correlation_of_pair L (numeric_cols df) M i j)
             [i + 1 ..< length (numeric_cols df)])) [0 ..< length (numeric_cols df)]))))"
  by (auto simp: analyze_correlations_def Let_def split: option.splits)

text \<open>
  C3 (as the code has it). Every reported correlation is the rounding to three
  decimals of a Pearson coefficient of absolute value 0.5 or more, for a pair i < j
  of numeric columns, and its own absolute value is 0.5 or more; the list is sorted by
  absolute value in non-increasing order (equal values may follow each other); and it
  has five entries at most.
\<close>

theorem C3_correlations_filtered_sorted_top5:
  "(\<forall>c\<in>set (analyze_correlations L df).
      1 / 2 \<le> \<bar>correlation c\<bar> \<and>
      (\<exists>M i j r. corr L (map num_cells (numeric_cols df)) = Some M \<and>
         i < j \<and> j < length (numeric_cols df) \<and> M i j = Some r \<and> 1 / 2 \<le> \<bar>r\<bar> \<and>
         correlation c = py_round r 3)) \<and>
   sorted_wrt (\<lambda>a b. \<bar>correlation b\<bar> \<le> \<bar>correlation a\<bar>) (analyze_correlations L df) \<and>
   length (analyze_correlations L df) \<le> 5"
proof (intro conjI ballI)
  show "length (analyze_correlations L df) \<le> 5"
    by (simp add: analyze_correlations_def Let_def)
next
  show "sorted_wrt (\<lambda>a b. \<bar>correlation b\<bar> \<le> \<bar>correlation a\<bar>) (analyze_correlations L df)"
  proof (cases "analyze_correlations L df = []")
    case True
    then show ?thesis by simp
  next
    case False
    then obtain M where eq: "analyze_correlations L df = take 5 (sort_by_abs_correlation
        (concat (map (\<lambda>i. concat (map (\<lambda>j.
           correlation_of_pair L (numeric_cols df) M i j)
             [i + 1 ..< length (numeric_cols df)])) [0 ..< length (numeric_cols df)])))"
      using analyze_correlations_cases [of L df] by blast
    show ?thesis
      unfolding eq by (rule sorted_wrt_take) (rule sort_by_abs_correlation_sorted)
  qed
next
  fix c assume c: "c \<in> set (analyze_correlations L df)"
  then have "analyze_correlations L df \<noteq> []" by auto
  then obtain M where M: "corr L (map num_cells (numeric_cols df)) = Some M"
    and eq: "analyze_correlations L df = take 5 (sort_by_abs_correlation
        (concat (map (\<lambda>i. concat (map (\<lambda>j.
           correlation_of_pair L (numeric_cols df) M i j)
             [i + 1 ..< length (numeric_cols df)])) [0 ..< length (numeric_cols df)])))"
    using analyze_correlations_cases [of L df] by blast
  from c have "c \<in> set (sort_by_abs_correlation
        (concat (map (\<lambda>i. concat (map (\<lambda>j.
           correlation_of_pair L (numeric_cols df) M i j)
             [i + 1 ..< length (numeric_cols df)])) [0 ..< length (numeric_cols df)])))"
    unfolding eq by (rule in_set_takeD)
  then obtain i j where ij: "i < j" "j < length (numeric_cols df)"
    "c \<in> set (correlation_of_pair L (numeric_cols df) M i j)"
    unfolding set_sort_by_abs_correlation by (fastforce simp: Suc_le_eq)
  then obtain r where r: "M i j = Some r" "1 / 2 \<le> \<bar>r\<bar>" "correlation c = py_round r 3"
    using correlation_of_pair_sound by blast
  show "1 / 2 \<le> \<bar>correlation c\<bar>"
    unfolding r(3) using r(2) by (rule py_round_3_abs_ge_half)
  show "\<exists>M i j r. corr L (map num_cells (numeric_cols df)) = Some M \<and>
         i < j \<and> j < length (numeric_cols df) \<and> M i j = Some r \<and> 1 / 2 \<le> \<bar>r\<bar> \<and>
         correlation c = py_round r 3"
    using M ij(1,2) r by blast
qed


theorem C3_correlations_filtered_sorted_top5_witness:
  "map (\<lambda>c. (variable_x c, variable_y c, correlation c, strength c))
     (analyze_correlations ex_libs_abc ex_df_abc) =
     [(''a'', ''c'', - 1, ''strong''), (''a'', ''b'', 1 / 2, ''moderate''),
      (''b'', ''c'', - 1 / 2, ''moderate'')] \<and>
   list_all (\<lambda>c. 1 / 2 \<le> \<bar>correlation c\<bar>) (analyze_correlations ex_libs_abc ex_df_abc) \<and>
   sorted_wrt (\<lambda>a b. \<bar>correlation b\<bar> \<le> \<bar>correlation a\<bar>)
     (analyze_correlations ex_libs_abc ex_df_abc) \<and>
   length (analyze_correlations ex_libs_abc ex_df_abc) \<le> 5"
proof -
  have v: "map (\<lambda>c. (variable_x c, variable_y c, correlation c, strength c))
     (analyze_correlations ex_libs_abc ex_df_abc) =
     [(''a'', ''c'', - 1, ''strong''), (''a'', ''b'', 1 / 2, ''moderate''),
      (''b'', ''c'', - 1 / 2, ''moderate'')]"
    by code_simp
  note t = C3_correlations_filtered_sorted_top5 [of ex_libs_abc ex_df_abc]
  from t have "\<forall>c\<in>set (analyze_correlations ex_libs_abc ex_df_abc). 1 / 2 \<le> \<bar>correlation c\<bar>"
    by blast
  then have "list_all (\<lambda>c. 1 / 2 \<le> \<bar>correlation c\<bar>) (analyze_correlations ex_libs_abc ex_df_abc)"
    unfolding list_all_iff .
  with v t show ?thesis by blast
qed

text \<open>
  C3 as stated fails on the word strictly: in the frame of three columns two pairs
  have the absolute coefficient 1/2, and they follow each other in the result, the
  second and the third of its entries.
\<close>

theorem C3_not_strictly_sorted_counterexample:
  "map correlation (analyze_correlations ex_libs_abc ex_df_abc) = [- 1, 1 / 2, - 1 / 2] \<and>
   \<bar>correlation (analyze_correlations ex_libs_abc ex_df_abc ! 1)\<bar> =
   \<bar>correlation (analyze_correlations ex_libs_abc ex_df_abc ! 2)\<bar>"
  by code_simp

subsection \<open>Outliers\<close>

lemma fold_max_in: "fold max xs (x::real) \<in> set (x # xs)"
  by (induction xs arbitrary: x) (auto simp: max_def)

lemma fold_min_in: "fold min xs (x::real) \<in> set (x # xs)"
  by (induction xs arbitrary: x) (auto simp: min_def)

lemma real_list_max_in: "xs \<noteq> [] \<Longrightarrow> real_list_max xs \<in> set xs"
  using fold_max_in by (cases xs) auto

lemma real_list_min_in: "xs \<noteq> [] \<Longrightarrow> real_list_min xs \<in> set xs"
  using fold_min_in by (cases xs) auto

lemma outliers_of_col_sound:
  assumes "g \<in> set (outliers_of_col df c)"
  shows "\<exists>Q1 Q3. quantile (num_cells c) (25 / 100) = Some Q1 \<and>
       quantile (num_cells c) (75 / 100) = Some Q3 \<and>
       outlier_column g = name c \<and>
       lower_bound g = Q1 - 15 / 10 * (Q3 - Q1) \<and>
       upper_bound g = Q3 + 15 / 10 * (Q3 - Q1) \<and>
       1 \<le> outlier_count g \<and>
       outlier_count g = length (filter (\<lambda>v. v < lower_bound g \<or> upper_bound g < v)
         (dropna (num_cells c))) \<and>
       highest g \<in> set (dropna (num_cells c)) \<and>
       (highest g < lower_bound g \<or> upper_bound g < highest g) \<and>
       lowest g \<in> set (dropna (num_cells c)) \<and>
       (lowest g < lower_bound g \<or> upper_bound g < lowest g)"
proof -
  obtain Q1 where q1: "quantile (num_cells c) (25 / 100) = Some Q1"
  proof (cases "quantile (num_cells c) (25 / 100)")
    case None
    with assms have False by (simp add: outliers_of_col_def)
    then show ?thesis ..
  next
    case (Some a)
    then show ?thesis by (rule that)
  qed
  obtain Q3 where q3: "quantile (num_cells c) (75 / 100) = Some Q3"
  proof (cases "quantile (num_cells c) (75 / 100)")
    case None
    with assms q1 have False by (simp add: outliers_of_col_def)
    then show ?thesis ..
  next
    case (Some a)
    then show ?thesis by (rule that)
  qed
  note q = q1 q3
  let ?lo = "Q1 - 15 / 10 * (Q3 - Q1)"
  let ?hi = "Q3 + 15 / 10 * (Q3 - Q1)"
  let ?ov = "filter (\<lambda>v. v < ?lo \<or> ?hi < v) (dropna (num_cells c))"
  from assms q have ne: "?ov \<noteq> []"
    and g: "g = \<lparr>outlier_column = name c, outlier_count = length ?ov,
        outlier_percentage = py_round (real (length ?ov) / real (nrows df) * 100) 1,
        highest = real_list_max ?ov, lowest = real_list_min ?ov,
        upper_bound = ?hi, lower_bound = ?lo\<rparr>"
    by (auto simp: outliers_of_col_def Let_def split: if_splits)
  have "real_list_max ?ov \<in> set ?ov" using ne by (rule real_list_max_in)
  then have hi: "real_list_max ?ov \<in> set (dropna (num_cells c))"
    "real_list_max ?ov < ?lo \<or> ?hi < real_list_max ?ov" by auto
  have "real_list_min ?ov \<in> set ?ov" using ne by (rule real_list_min_in)
  then have lo: "real_list_min ?ov \<in> set (dropna (num_cells c))"
    "real_list_min ?ov < ?lo \<or> ?hi < real_list_min ?ov" by auto
  have "1 \<le> length ?ov" using ne by (cases ?ov) simp_all
  with q hi lo show ?thesis unfolding g by simp
qed

text \<open>
  C5. Every group that the outlier detector reports belongs to one of the first five
  numeric columns, whose quartiles Q1 and Q3 exist; its bounds are Q1 - 1.5 IQR and
  Q3 + 1.5 IQR with IQR = Q3 - Q1; it counts the values of the column strictly
  outside the bounds, which are one at least; and the reported highest and lowest
  values are values of the column strictly outside the bounds.
\<close>

theorem C5_outlier_bounds_and_values:
  "\<forall>g\<in>set (detect_outliers df). \<exists>c\<in>set (take 5 (numeric_cols df)). \<exists>Q1 Q3.
       quantile (num_cells c) (25 / 100) = Some Q1 \<and>
       quantile (num_cells c) (75 / 100) = Some Q3 \<and>
       outlier_column g = name c \<and>
       lower_bound g = Q1 - 15 / 10 * (Q3 - Q1) \<and>
       upper_bound g = Q3 + 15 / 10 * (Q3 - Q1) \<and>
       1 \<le> outlier_count g \<and>
       outlier_count g = length (filter (\<lambda>v. v < lower_bound g \<or> upper_bound g < v)
         (dropna (num_cells c))) \<and>
       highest g \<in> set (dropna (num_cells c)) \<and>
       (highest g < lower_bound g \<or> upper_bound g < highest g) \<and>
       lowest g \<in> set (dropna (num_cells c)) \<and>
       (lowest g < lower_bound g \<or> upper_bound g < lowest g)"
proof
  fix g assume "g \<in> set (detect_outliers df)"
  then obtain c where c: "c \<in> set (take 5 (numeric_cols df))" "g \<in> set (outliers_of_col df c)"
    by (auto simp: detect_outliers_def)
  from outliers_of_col_sound [OF c(2)] c(1)
  show "\<exists>c\<in>set (take 5 (numeric_cols df)). \<exists>Q1 Q3.
       quantile (num_cells c) (25 / 100) = Some Q1 \<and>
       quantile (num_cells c) (75 / 100) = Some Q3 \<and>
       outlier_column g = name c \<and>
       lower_bound g = Q1 - 15 / 10 * (Q3 - Q1) \<and>
       upper_bound g = Q3 + 15 / 10 * (Q3 - Q1) \<and>
       1 \<le> outlier_count g \<and>
       outlier_count g = length (filter (\<lambda>v. v < lower_bound g \<or> upper_bound g < v)
         (dropna (num_cells c))) \<and>
       highest g \<in> set (dropna (num_cells c)) \<and>
       (highest g < lower_bound g \<or> upper_bound g < highest g) \<and>
       lowest g \<in> set (dropna (num_cells c)) \<and>
       (lowest g < lower_bound g \<or> upper_bound g < lowest g)"
    by blast
qed


theorem C5_outlier_bounds_and_values_witness:
  "detect_outliers ex_df_outlier =
     [\<lparr>outlier_column = ''amount'', outlier_count = 1, outlier_percentage = 20,
       highest = 100, lowest = 100, upper_bound = 7, lower_bound = - 1\<rparr>] \<and>
   list_all (\<lambda>g. 1 \<le> outlier_count g \<and>
       (highest g < lower_bound g \<or> upper_bound g < highest g) \<and>
       (lowest g < lower_bound g \<or> upper_bound g < lowest g))
     (detect_outliers ex_df_outlier)"
proof -
  have v: "detect_outliers ex_df_outlier =
     [\<lparr>outlier_column = ''amount'', outlier_count = 1, outlier_percentage = 20,
       highest = 100, lowest = 100, upper_bound = 7, lower_bound = - 1\<rparr>]"
    by code_simp
  have "\<forall>g\<in>set (detect_outliers ex_df_outlier). 1 \<le> outlier_count g \<and>
       (highest g < lower_bound g \<or> upper_bound g < highest g) \<and>
       (lowest g < lower_bound g \<or> upper_bound g < lowest g)"
    using C5_outlier_bounds_and_values [of ex_df_outlier] by blast
  then have "list_all (\<lambda>g. 1 \<le> outlier_count g \<and>
       (highest g < lower_bound g \<or> upper_bound g < highest g) \<and>
       (lowest g < lower_bound g \<or> upper_bound g < lowest g))
     (detect_outliers ex_df_outlier)"
    unfolding list_all_iff .
  with v show ?thesis by blast
qed

subsection \<open>Segments\<close>

lemma set_value_counts:
  "set (value_counts cells) = (\<lambda>v. (v, count_list (dropna cells) v)) ` set (dropna cells)"
  by (simp add: value_counts_def Let_def)

lemma sorted_value_counts: "sorted_wrt (\<lambda>a b. snd b \<le> snd a) (value_counts cells)"
proof -
  let ?xs = "map (\<lambda>v. (v, count_list (dropna cells) v)) (rev (remdups (rev (dropna cells))))"
  have "sorted (map (\<lambda>p. - int (snd p)) (sort_key (\<lambda>p. - int (snd p)) ?xs))"
    by (rule sorted_sort_key)
  then have "sorted_wrt (\<lambda>a b. - int (snd a) \<le> - int (snd b))
      (sort_key (\<lambda>p. - int (snd p)) ?xs)"
    by (simp add: sorted_map)
  then show ?thesis
    by (simp add: value_counts_def Let_def)
qed

lemma categorical_segment_sound:
  assumes "Categorical label cats \<in> set (categorical_segment df c)"
  shows "label = name c \<and>
     2 \<le> card (set (dropna (obj_cells c))) \<and> card (set (dropna (obj_cells c))) \<le> 10 \<and>
     2 \<le> length cats \<and> length cats \<le> 5 \<and>
     sorted_wrt (\<lambda>a b. cat_count b \<le> cat_count a) cats \<and>
     (\<forall>k\<in>set cats.
        cat_count k = count_list (dropna (obj_cells c)) (cat_name k) \<and>
        percentage k = py_round (real (cat_count k) / real (nrows df) * 100) 1)"
proof -
  let ?vc = "value_counts (obj_cells c)"
  let ?mk = "\<lambda>p. \<lparr>cat_name = fst p, cat_count = snd p,
     percentage = py_round (real (snd p) / real (nrows df) * 100) 1\<rparr>"
  have rng: "2 \<le> length ?vc \<and> length ?vc \<le> 10"
  proof (rule ccontr)
    assume "\<not> (2 \<le> length ?vc \<and> length ?vc \<le> 10)"
    then have "categorical_segment df c = []"
      unfolding categorical_segment_def Let_def by (rule if_not_P)
    with assms show False by simp
  qed
  then have "categorical_segment df c = [Categorical (name c) (map ?mk (take 5 ?vc))]"
    unfolding categorical_segment_def Let_def by (rule if_P)
  with assms have lab: "label = name c" and cats: "cats = map ?mk (take 5 ?vc)"
    by simp_all
  have card: "2 \<le> card (set (dropna (obj_cells c))) \<and> card (set (dropna (obj_cells c))) \<le> 10"
    using rng unfolding length_value_counts .
  have len: "2 \<le> length cats \<and> length cats \<le> 5"
    unfolding cats using rng by simp
  have "sorted_wrt (\<lambda>a b. snd b \<le> snd a) (take 5 ?vc)"
    by (rule sorted_wrt_take) (rule sorted_value_counts)
  then have srt: "sorted_wrt (\<lambda>a b. cat_count b \<le> cat_count a) cats"
    unfolding cats by (simp add: sorted_wrt_map)
  have each: "\<forall>k\<in>set cats.
        cat_count k = count_list (dropna (obj_cells c)) (cat_name k) \<and>
        percentage k = py_round (real (cat_count k) / real (nrows df) * 100) 1"
  proof
    fix k assume "k \<in> set cats"
    then obtain p where p: "p \<in> set (take 5 ?vc)" "k = ?mk p"
      unfolding cats by auto
    from p(1) have "p \<in> set ?vc" by (rule in_set_takeD)
    then have "snd p = count_list (dropna (obj_cells c)) (fst p)"
      unfolding set_value_counts by auto
    then show "cat_count k = count_list (dropna (obj_cells c)) (cat_name k) \<and>
        percentage k = py_round (real (cat_count k) / real (nrows df) * 100) 1"
      unfolding p(2) by simp
  qed
  from lab card len srt each show ?thesis by blast
qed

lemma numeric_clustering_segments:
  "numeric_clustering L df = Inr segs \<Longrightarrow> Categorical label cats \<notin> set segs"
  by (auto simp: numeric_clustering_def Let_def split: if_splits option.splits)

lemma clustering_tail:
  "Categorical label cats \<notin>
     set (case numeric_clustering L df of Inl e \<Rightarrow> [] | Inr segs \<Rightarrow> segs)"
proof (cases "numeric_clustering L df")
  case (Inl err)
  show ?thesis unfolding Inl by simp
next
  case (Inr found)
  then have n: "Categorical label cats \<notin> set found"
    by (rule numeric_clustering_segments)
  show ?thesis unfolding Inr using n by simp
qed

lemma analyze_segments_categorical:
  assumes "Categorical label cats \<in> set (analyze_segments L df)"
  shows "\<exists>c\<in>set (take 3 (categorical_cols df)).
     Categorical label cats \<in> set (categorical_segment df c)"
proof (cases "HAS_SCIPY L")
  case False
  with assms show ?thesis by (simp add: analyze_segments_def)
next
  case True
  let ?tail = "if length (numeric_cols df) \<ge> 2 \<and> nrows df \<ge> 10 then
           (case numeric_clustering L df of Inl e \<Rightarrow> [] | Inr segs \<Rightarrow> segs)
         else []"
  have "Categorical label cats \<notin> set ?tail"
  proof (cases "length (numeric_cols df) \<ge> 2 \<and> nrows df \<ge> 10")
    case True
    show ?thesis unfolding if_P [OF True] by (rule clustering_tail)
  next
    case False
    show ?thesis unfolding if_not_P [OF False] by simp
  qed
  then have notin: "Categorical label cats \<notin> set ?tail" .
  have eq: "analyze_segments L df =
      concat (map (categorical_segment df) (take 3 (categorical_cols df))) @ ?tail"
    using True by (simp add: analyze_segments_def)
  have "Categorical label cats \<in>
      set (concat (map (categorical_segment df) (take 3 (categorical_cols df))) @ ?tail)"
    using assms unfolding eq .
  then have "Categorical label cats \<in>
      set (concat (map (categorical_segment df) (take 3 (categorical_cols df)))) \<or>
      Categorical label cats \<in> set ?tail"
    unfolding set_append Un_iff .
  with notin have "Categorical label cats \<in>
      set (concat (map (categorical_segment df) (take 3 (categorical_cols df))))"
    by blast
  then show ?thesis unfolding set_concat by auto
qed

text \<open>
  C10 (as the code has it). Every categorical segment comes from one of the first
  three columns of text, whose number of distinct values is between 2 and 10; it lists
  between 2 and 5 categories, in non-increasing order of their counts; the count of a
  category is the number of its occurrences in the column, and its percentage is the
  count divided by the number of rows of the whole frame, times 100, rounded to one
  decimal.
\<close>

theorem C10_categorical_segment_shape:
  "\<forall>seg\<in>set (analyze_segments L df). \<forall>label cats. seg = Categorical label cats \<longrightarrow>
     (\<exists>c\<in>set (take 3 (categorical_cols df)).
        label = name c \<and>
        2 \<le> card (set (dropna (obj_cells c))) \<and> card (set (dropna (obj_cells c))) \<le> 10 \<and>
        2 \<le> length cats \<and> length cats \<le> 5 \<and>
        sorted_wrt (\<lambda>a b. cat_count b \<le> cat_count a) cats \<and>
        (\<forall>k\<in>set cats.
           cat_count k = count_list (dropna (obj_cells c)) (cat_name k) \<and>
           percentage k = py_round (real (cat_count k) / real (nrows df) * 100) 1))"
proof (intro ballI allI impI)
  fix seg label cats
  assume "seg \<in> set (analyze_segments L df)" "seg = Categorical label cats"
  then have "Categorical label cats \<in> set (analyze_segments L df)" by simp
  then obtain c where c: "c \<in> set (take 3 (categorical_cols df))"
    "Categorical label cats \<in> set (categorical_segment df c)"
    using analyze_segments_categorical by blast
  from categorical_segment_sound [OF c(2)] c(1)
  show "\<exists>c\<in>set (take 3 (categorical_cols df)).
        label = name c \<and>
        2 \<le> card (set (dropna (obj_cells c))) \<and> card (set (dropna (obj_cells c))) \<le> 10 \<and>
        2 \<le> length cats \<and> length cats \<le> 5 \<and>
        sorted_wrt (\<lambda>a b. cat_count b \<le> cat_count a) cats \<and>
        (\<forall>k\<in>set cats.
           cat_count k = count_list (dropna (obj_cells c)) (cat_name k) \<and>
           percentage k = py_round (real (cat_count k) / real (nrows df) * 100) 1)"
    by blast
qed


theorem C10_categorical_segment_shape_witness:
  "Categorical ''plan''
     [\<lparr>cat_name = ''free'', cat_count = 2, percentage = 667 / 10\<rparr>,
      \<lparr>cat_name = ''paid'', cat_count = 1, percentage = 333 / 10\<rparr>]
     \<in> set (analyze_segments ex_libs ex_df_segments) \<and>
   (\<exists>c\<in>set (take 3 (categorical_cols ex_df_segments)).
      ''plan'' = name c \<and> 2 \<le> card (set (dropna (obj_cells c))) \<and>
      card (set (dropna (obj_cells c))) \<le> 10)"
proof -
  let ?cats = "[\<lparr>cat_name = ''free'', cat_count = 2, percentage = 667 / 10\<rparr>,
      \<lparr>cat_name = ''paid'', cat_count = 1, percentage = 333 / 10\<rparr>]"
  have "analyze_segments ex_libs ex_df_segments =
     [Categorical ''region''
        [\<lparr>cat_name = ''north'', cat_count = 1, percentage = 333 / 10\<rparr>,
         \<lparr>cat_name = ''south'', cat_count = 1, percentage = 333 / 10\<rparr>,
         \<lparr>cat_name = ''west'', cat_count = 1, percentage = 333 / 10\<rparr>],
      Categorical ''plan'' ?cats]"
    by code_simp
  then have m: "Categorical ''plan'' ?cats \<in> set (analyze_segments ex_libs ex_df_segments)"
    by simp
  from C10_categorical_segment_shape [rule_format, OF m refl]
  have "\<exists>c\<in>set (take 3 (categorical_cols ex_df_segments)).
      ''plan'' = name c \<and> 2 \<le> card (set (dropna (obj_cells c))) \<and>
      card (set (dropna (obj_cells c))) \<le> 10"
    by blast
  with m show ?thesis by blast
qed

text \<open>
  C10 as stated fails on the percentage: it is rounded to one decimal. One row of
  three is reported as 33.3 percent, which is not 1 / 3 * 100.
\<close>

theorem C10_percentage_rounded_counterexample:
  "categorical_segment ex_df_segments
     \<lparr>name = ''region'', data = Object [Some ''north'', Some ''south'', Some ''west'']\<rparr> =
     [Categorical ''region''
        [\<lparr>cat_name = ''north'', cat_count = 1, percentage = 333 / 10\<rparr>,
         \<lparr>cat_name = ''south'', cat_count = 1, percentage = 333 / 10\<rparr>,
         \<lparr>cat_name = ''west'', cat_count = 1, percentage = 333 / 10\<rparr>]] \<and>
   nrows ex_df_segments = 3 \<and>
   (333 / 10 :: real) \<noteq> real 1 / real 3 * 100"
  by code_simp

subsection \<open>Running the analysis twice\<close>

lemma numeric_clustering_seed:
  assumes "fit_transform L2 = fit_transform L1"
    and "\<forall>rows. fit_predict L2 3 42 10 rows = fit_predict L1 3 42 10 rows"
  shows "numeric_clustering L2 df = numeric_clustering L1 df"
  unfolding numeric_clustering_def Let_def assms(1) assms(2) [rule_format] by (rule refl)

lemma segment_insights_libs:
  "str_float L2 = str_float L1 \<Longrightarrow> segment_insights L2 segs = segment_insights L1 segs"
  by (induction L1 segs rule: segment_insights.induct) (simp_all split: sum.splits)

lemma trend_of_pair_libs:
  assumes "to_datetime L2 = to_datetime L1" and "strftime_ym L2 = strftime_ym L1"
  shows "trend_of_pair L2 d m = trend_of_pair L1 d m"
  unfolding trend_of_pair_def assms by (rule refl)

lemma detect_trends_libs:
  assumes "to_datetime L2 = to_datetime L1" and "strftime_ym L2 = strftime_ym L1"
  shows "detect_trends L2 df = detect_trends L1 df"
  unfolding detect_trends_def date_cols_def trends_of_pair_def
    trend_of_pair_libs [OF assms] assms(1)
  by (rule refl)

lemma analyze_correlations_libs:
  assumes "corr L2 = corr L1" and "format_2f L2 = format_2f L1"
  shows "analyze_correlations L2 df = analyze_correlations L1 df"
  unfolding analyze_correlations_def correlation_of_pair_def
    generate_correlation_insight_def assms
  by (rule refl)

lemma analyze_segments_libs:
  assumes "HAS_SCIPY L2 = HAS_SCIPY L1" and "fit_transform L2 = fit_transform L1"
    and "\<forall>rows. fit_predict L2 3 42 10 rows = fit_predict L1 3 42 10 rows"
  shows "analyze_segments L2 df = analyze_segments L1 df"
  unfolding analyze_segments_def assms(1) numeric_clustering_seed [OF assms(2,3)]
  by (rule refl)

lemma key_insights_of_libs:
  assumes "str_float L2 = str_float L1"
  shows "key_insights_of L2 ts cs ss = key_insights_of L1 ts cs ss"
  unfolding key_insights_of_def trend_insights_def segment_insights_libs [OF assms] assms
  by (rule refl)

text \<open>
  C4. Two runs of the analysis on the same frame at different times, with libraries
  that agree on the clustering for the arguments the analysis passes (three clusters,
  seed 42, ten initialisations) whatever they do for other seeds, both produce a
  report; the segments, with the cluster assignments behind them, are the same, and
  the second report is the first with its timestamp replaced. That the k-means of the
  library is a function of its seed and its rows is how the library is modelled.
\<close>

theorem C4_rerun_identical_except_timestamp:
  "L2 = L1\<lparr>fit_predict := kmeans2\<rparr> \<and>
   (\<forall>rows. kmeans2 3 42 10 rows = fit_predict L1 3 42 10 rows) \<longrightarrow>
   (\<exists>r1 r2. analyze_dataframe L1 now1 df = Inr r1 \<and> analyze_dataframe L2 now2 df = Inr r2 \<and>
     segments r2 = segments r1 \<and>
     r2 = r1\<lparr>meta := (meta r1)\<lparr>analysis_timestamp := now2\<rparr>\<rparr>)"
proof
  assume a: "L2 = L1\<lparr>fit_predict := kmeans2\<rparr> \<and>
   (\<forall>rows. kmeans2 3 42 10 rows = fit_predict L1 3 42 10 rows)"
  then have a1: "L2 = L1\<lparr>fit_predict := kmeans2\<rparr>"
    and a2: "\<forall>rows. kmeans2 3 42 10 rows = fit_predict L1 3 42 10 rows" by blast+
  obtain q where q: "calculate_data_quality_score df = Inr q"
    using calculate_data_quality_score_total by blast
  have e: "detect_trends L2 df = detect_trends L1 df"
    "analyze_correlations L2 df = analyze_correlations L1 df"
    "analyze_segments L2 df = analyze_segments L1 df"
    "\<And>ts cs ss. key_insights_of L2 ts cs ss = key_insights_of L1 ts cs ss"
  proof -
    show "detect_trends L2 df = detect_trends L1 df"
      by (rule detect_trends_libs) (simp_all add: a1)
    show "analyze_correlations L2 df = analyze_correlations L1 df"
      by (rule analyze_correlations_libs) (simp_all add: a1)
    show "analyze_segments L2 df = analyze_segments L1 df"
      by (rule analyze_segments_libs) (simp_all add: a1 a2)
    show "\<And>ts cs ss. key_insights_of L2 ts cs ss = key_insights_of L1 ts cs ss"
      by (rule key_insights_of_libs) (simp add: a1)
  qed
  have m: "sys_version L2 = sys_version L1" "pd_version L2 = pd_version L1"
    "HAS_PROFILING L2 = HAS_PROFILING L1" "HAS_SCIPY L2 = HAS_SCIPY L1"
    unfolding a1 by simp_all
  show "\<exists>r1 r2. analyze_dataframe L1 now1 df = Inr r1 \<and> analyze_dataframe L2 now2 df = Inr r2 \<and>
     segments r2 = segments r1 \<and>
     r2 = r1\<lparr>meta := (meta r1)\<lparr>analysis_timestamp := now2\<rparr>\<rparr>"
    unfolding analyze_dataframe_Inr [OF q] e m by simp
qed


theorem C4_rerun_identical_except_timestamp_witness:
  "analyze_segments ex_libs_kmeans ex_df_clusters =
     [Numeric_clusters ''kmeans'' [''visits'', ''spend'']
        [\<lparr>cluster_id = 0, cluster_size = 3, cluster_percentage = 30,
           characteristics = [(''visits'', 2, 2), (''spend'', 4, 4)]\<rparr>,
         \<lparr>cluster_id = 1, cluster_size = 4, cluster_percentage = 40,
           characteristics = [(''visits'', 11 / 2, 11 / 2), (''spend'', 11, 11)]\<rparr>,
         \<lparr>cluster_id = 2, cluster_size = 3, cluster_percentage = 30,
           characteristics = [(''visits'', 9, 9), (''spend'', 18, 18)]\<rparr>]] \<and>
   (\<exists>r1 r2.
      analyze_dataframe ex_libs_kmeans ''2024-05-01T09:00:00'' ex_df_clusters = Inr r1 \<and>
      analyze_dataframe (ex_libs_kmeans\<lparr>fit_predict := ex_kmeans_other\<rparr>)
        ''2024-05-02T17:30:00'' ex_df_clusters = Inr r2 \<and>
      segments r2 = segments r1 \<and>
      r2 = r1\<lparr>meta := (meta r1)\<lparr>analysis_timestamp := ''2024-05-02T17:30:00''\<rparr>\<rparr>)"
proof -
  have s: "analyze_segments ex_libs_kmeans ex_df_clusters =
     [Numeric_clusters ''kmeans'' [''visits'', ''spend'']
        [\<lparr>cluster_id = 0, cluster_size = 3, cluster_percentage = 30,
           characteristics = [(''visits'', 2, 2), (''spend'', 4, 4)]\<rparr>,
         \<lparr>cluster_id = 1, cluster_size = 4, cluster_percentage = 40,
           characteristics = [(''visits'', 11 / 2, 11 / 2), (''spend'', 11, 11)]\<rparr>,
         \<lparr>cluster_id = 2, cluster_size = 3, cluster_percentage = 30,
           characteristics = [(''visits'', 9, 9), (''spend'', 18, 18)]\<rparr>]]"
    by code_simp
  have h: "ex_libs_kmeans\<lparr>fit_predict := ex_kmeans_other\<rparr> =
      ex_libs_kmeans\<lparr>fit_predict := ex_kmeans_other\<rparr> \<and>
    (\<forall>rows. ex_kmeans_other 3 42 10 rows = fit_predict ex_libs_kmeans 3 42 10 rows)"
    by (simp add: ex_kmeans_other_def ex_libs_kmeans_def)
  from C4_rerun_identical_except_timestamp [rule_format, OF h] s show ?thesis by blast
qed

end
